theory Spec2Isabelle
  imports Complex_Main "HOL-Library.Sublist" "HOL-Library.Multiset"
begin

section \<open>Strings as the response parser sees them\<close>

text \<open>
  A JavaScript string is modelled as a \<open>string\<close> whose characters are code units below
  256. The character classes are those of the regular expressions and of
  \<open>String.prototype.trim\<close> restricted to that range: \<open>\d\<close> is \<open>0\<close>..\<open>9\<close>; \<open>\s\<close> and the
  characters removed by \<open>trim\<close> are tab, line feed, vertical tab, form feed, carriage
  return, space and the no-break space. Under the \<open>i\<close> flag a pattern character and a
  text character match when their upper-case forms agree; every pattern character of
  \<open>assessmentService.js\<close> is ASCII, so only the ASCII letters are folded.
\<close>

definition is_digit :: "char \<Rightarrow> bool" where
  "is_digit c = (c \<in> set ''0123456789'')"

definition is_space :: "char \<Rightarrow> bool" where
  "is_space c =
     (c \<in> set [CHR 0x09, CHR 0x0A, CHR 0x0B, CHR 0x0C, CHR 0x0D, CHR 0x20, CHR 0xA0])"

definition upper :: "char \<Rightarrow> char" where
  "upper c =
     (case map_of (zip ''abcdefghijklmnopqrstuvwxyz'' ''ABCDEFGHIJKLMNOPQRSTUVWXYZ'') c of
        Some u \<Rightarrow> u
      | None \<Rightarrow> c)"

text \<open>\<open>s.trim()\<close>.\<close>

definition trim :: "string \<Rightarrow> string" where
  "trim s = rev (dropWhile is_space (rev (dropWhile is_space s)))"

text \<open>\<open>s.split(d)\<close> for a one-character separator: the empty string gives one empty item.\<close>

fun split_on :: "char \<Rightarrow> string \<Rightarrow> string list" where
  "split_on d [] = [[]]"
| "split_on d (c # cs) =
     (if c = d then [] # split_on d cs
      else (case split_on d cs of
              [] \<Rightarrow> [[c]]
            | x # xs \<Rightarrow> (c # x) # xs))"

text \<open>\<open>str.split(',').map(s => s.trim()).filter(s => s.length > 0)\<close>.\<close>

definition split_list :: "string \<Rightarrow> string list" where
  "split_list str = filter (\<lambda>s. length s > 0) (map trim (split_on (CHR '','') str))"

text \<open>
  \<open>parseInt(ds, 10)\<close> on a non-empty string of decimal digits. JavaScript returns a double,
  which is the exact value below \<open>2^53\<close> and a value of at least \<open>2^53\<close> (possibly
  \<open>Infinity\<close>) above; the only use of the result is \<open>Math.min(100, Math.max(0, score))\<close>,
  which is the same for the exact value and for the double.
\<close>

definition digit_val :: "char \<Rightarrow> nat" where
  "digit_val c = of_char c - 48"

definition parseInt :: "string \<Rightarrow> nat" where
  "parseInt ds = foldl (\<lambda>n c. 10 * n + digit_val c) 0 ds"

section \<open>A backtracking matcher for the four regular expressions\<close>

text \<open>
  Each regular expression of \<open>parseGradingResponse\<close> is written with the combinators below,
  which follow the backtracking order of the JavaScript matcher: a matcher takes the text
  still to be read and returns the first capture group of the first successful path, or
  \<open>None\<close>. A continuation receives the characters captured so far and the remaining text.
\<close>

text \<open>A literal under the \<open>i\<close> flag; the result is the text after it.\<close>

fun lit_ci :: "string \<Rightarrow> string \<Rightarrow> string option" where
  "lit_ci [] s = Some s"
| "lit_ci (p # ps) [] = None"
| "lit_ci (p # ps) (c # cs) = (if upper p = upper c then lit_ci ps cs else None)"

text \<open>
  \<open>X*\<close> for a character class \<open>X\<close>, greedy: take as many characters as possible and give
  one back at a time while the rest of the pattern fails.
\<close>

fun star_greedy ::
  "(char \<Rightarrow> bool) \<Rightarrow> (string \<Rightarrow> string \<Rightarrow> 'a option) \<Rightarrow> string \<Rightarrow> string \<Rightarrow> 'a option" where
  "star_greedy P k acc [] = k acc []"
| "star_greedy P k acc (c # cs) =
     (if P c then
        (case star_greedy P k (acc @ [c]) cs of
           Some r \<Rightarrow> Some r
         | None \<Rightarrow> k acc (c # cs))
      else k acc (c # cs))"

text \<open>\<open>X+\<close>, greedy.\<close>

definition plus_greedy ::
  "(char \<Rightarrow> bool) \<Rightarrow> (string \<Rightarrow> string \<Rightarrow> 'a option) \<Rightarrow> string \<Rightarrow> 'a option" where
  "plus_greedy P k s =
     (case s of
        [] \<Rightarrow> None
      | c # cs \<Rightarrow> if P c then star_greedy P k [c] cs else None)"

text \<open>
  \<open>.+?\<close> under the \<open>s\<close> flag (the dot matches every character): take one character, then
  try the rest of the pattern before taking each further character.
\<close>

fun lazy_more :: "(string \<Rightarrow> string \<Rightarrow> 'a option) \<Rightarrow> string \<Rightarrow> string \<Rightarrow> 'a option" where
  "lazy_more k acc [] = k acc []"
| "lazy_more k acc (c # cs) =
     (case k acc (c # cs) of
        Some r \<Rightarrow> Some r
      | None \<Rightarrow> lazy_more k (acc @ [c]) cs)"

definition plus_lazy :: "(string \<Rightarrow> string \<Rightarrow> 'a option) \<Rightarrow> string \<Rightarrow> 'a option" where
  "plus_lazy k s = (case s of [] \<Rightarrow> None | c # cs \<Rightarrow> lazy_more k [c] cs)"

text \<open>
  \<open>text.match(re)\<close> without the \<open>g\<close> flag: the pattern is tried at every start index from
  the left, the end of the text included.
\<close>

fun search :: "(string \<Rightarrow> 'a option) \<Rightarrow> string \<Rightarrow> 'a option" where
  "search m [] = m []"
| "search m (c # cs) = (case m (c # cs) of Some r \<Rightarrow> Some r | None \<Rightarrow> search m cs)"

text \<open>\<open>/SCORE:\s*(\d+)\/100/i\<close>, anchored at the start of its argument.\<close>

definition score_re :: "string \<Rightarrow> string option" where
  "score_re s =
     (case lit_ci ''SCORE:'' s of
        None \<Rightarrow> None
      | Some r \<Rightarrow>
          star_greedy is_space
            (\<lambda>_. plus_greedy is_digit
               (\<lambda>ds r'. case lit_ci ''/100'' r' of None \<Rightarrow> None | Some _ \<Rightarrow> Some ds))
            [] r)"

text \<open>
  The lookaheads \<open>(?=\n|STRENGTHS:|WEAK_AREAS:|$)\<close> and \<open>(?=\n|WEAK_AREAS:|$)\<close>. Without the
  \<open>m\<close> flag \<open>$\<close> is the end of the text.
\<close>

definition feedback_stop :: "string \<Rightarrow> bool" where
  "feedback_stop s =
     (lit_ci ''\<newline>'' s \<noteq> None \<or> lit_ci ''STRENGTHS:'' s \<noteq> None
      \<or> lit_ci ''WEAK_AREAS:'' s \<noteq> None \<or> s = [])"

definition strengths_stop :: "string \<Rightarrow> bool" where
  "strengths_stop s = (lit_ci ''\<newline>'' s \<noteq> None \<or> lit_ci ''WEAK_AREAS:'' s \<noteq> None \<or> s = [])"

definition at_end :: "string \<Rightarrow> bool" where
  "at_end s = (s = [])"

text \<open>\<open>/LABEL\s*(.+?)STOP/is\<close>, anchored, for a label and a zero-width stop condition.\<close>

definition section_re :: "string \<Rightarrow> (string \<Rightarrow> bool) \<Rightarrow> string \<Rightarrow> string option" where
  "section_re label stop s =
     (case lit_ci label s of
        None \<Rightarrow> None
      | Some r \<Rightarrow>
          star_greedy is_space
            (\<lambda>_. plus_lazy (\<lambda>cap rest. if stop rest then Some cap else None))
            [] r)"

text \<open>\<open>/FEEDBACK:\s*(.+?)(?=\n|STRENGTHS:|WEAK_AREAS:|$)/is\<close>.\<close>

definition feedback_re :: "string \<Rightarrow> string option" where
  "feedback_re = section_re ''FEEDBACK:'' feedback_stop"

text \<open>\<open>/STRENGTHS:\s*(.+?)(?=\n|WEAK_AREAS:|$)/is\<close>.\<close>

definition strengths_re :: "string \<Rightarrow> string option" where
  "strengths_re = section_re ''STRENGTHS:'' strengths_stop"

text \<open>\<open>/WEAK_AREAS:\s*(.+?)$/is\<close>.\<close>

definition weak_areas_re :: "string \<Rightarrow> string option" where
  "weak_areas_re = section_re ''WEAK_AREAS:'' at_end"

section \<open>parseGradingResponse\<close>

record graded_result =
  score :: nat
  feedback :: string
  strengths :: "string list"
  weakAreas :: "string list"

text \<open>
  The argument is \<open>gradingResult.data\<close>, the \<open>content\<close> of the first completion choice:
  a string, or \<open>null\<close> (\<open>None\<close>), on which \<open>llmResponse.match\<close> throws a \<open>TypeError\<close>.
\<close>

datatype exn = TypeError | ServiceError

text \<open>The body of the \<open>try\<close> block (the log line has no effect on the result).\<close>

definition parse_try :: "string option \<Rightarrow> exn + graded_result" where
  "parse_try llmResponse =
     (case llmResponse of
        None \<Rightarrow> Inl TypeError
      | Some text \<Rightarrow>
          let scoreMatch = search score_re text;
              score = (case scoreMatch of Some ds \<Rightarrow> parseInt ds | None \<Rightarrow> 0);
              feedbackMatch = search feedback_re text;
              feedback = (case feedbackMatch of
                            Some m \<Rightarrow> trim m
                          | None \<Rightarrow> ''No feedback available'');
              strengthsMatch = search strengths_re text;
              strengthsStr = (case strengthsMatch of Some m \<Rightarrow> trim m | None \<Rightarrow> '''');
              weakAreasMatch = search weak_areas_re text;
              weakAreasStr = (case weakAreasMatch of Some m \<Rightarrow> trim m | None \<Rightarrow> '''')
          in Inr \<lparr>score = min 100 (max 0 score),
                  feedback = feedback,
                  strengths = split_list strengthsStr,
                  weakAreas = split_list weakAreasStr\<rparr>)"

definition parseGradingResponse :: "string option \<Rightarrow> graded_result" where
  "parseGradingResponse llmResponse =
     (case parse_try llmResponse of
        Inr r \<Rightarrow> r
      | Inl error \<Rightarrow>
          \<lparr>score = 0,
           feedback = ''Unable to process assessment. Please try again.'',
           strengths = [],
           weakAreas = [''Assessment parsing error'']\<rparr>)"


text \<open>
  Used only to state where the parser departs from the sentence "the text following
  \<open>FEEDBACK:\<close> up to the next labeled section or end of text": \<open>spec_section_text\<close> follows
  those words, not the code.
\<close>

definition label_here :: "string \<Rightarrow> bool" where
  "label_here s =
     (lit_ci ''SCORE:'' s \<noteq> None \<or> lit_ci ''FEEDBACK:'' s \<noteq> None
      \<or> lit_ci ''STRENGTHS:'' s \<noteq> None \<or> lit_ci ''WEAK_AREAS:'' s \<noteq> None)"

fun upto_next_label :: "string \<Rightarrow> string" where
  "upto_next_label [] = []"
| "upto_next_label (c # cs) = (if label_here (c # cs) then [] else c # upto_next_label cs)"

definition spec_section_text :: "string \<Rightarrow> string \<Rightarrow> string option" where
  "spec_section_text label text = map_option upto_next_label (search (lit_ci label) text)"

text \<open>A label occurs in a text, upper and lower case alike.\<close>

definition occurs_ci :: "string \<Rightarrow> string \<Rightarrow> bool" where
  "occurs_ci label text = (search (lit_ci label) text \<noteq> None)"

definition two_line_feedback :: string where
  "two_line_feedback =
     ''SCORE: 85/100\<newline>FEEDBACK: Great job!\<newline>Keep practising.\<newline>STRENGTHS: clarity, pace\<newline>WEAK_AREAS: grammar''"

section \<open>Responses, events and the world\<close>

text \<open>
  The "standardized response object": \<open>{success: true, data}\<close> or
  \<open>{success: false, error, code}\<close>.
\<close>

datatype code =
  ERR_INVALID_INPUT | ERR_USER_NOT_FOUND | ERR_LESSON_NOT_FOUND
  | ERR_TRANSCRIPTION_FAILED | ERR_GRADING_FAILED | ERR_DATABASE_ERROR

datatype 'a response = Success 'a | Failure string code

text \<open>A JavaScript number that may be \<open>NaN\<close> (\<open>0 / 0\<close>).\<close>

datatype jsnum = NaN | Num rat

record transcribed_result = graded_result +
  transcript :: string

text \<open>An assessment document; \<open>timestamp\<close> is in milliseconds since the epoch (UTC).\<close>

record assessment = transcribed_result +
  userId :: string
  lessonDay :: int
  targetLanguage :: string
  expectedAnswer :: string
  timestamp :: int

text \<open>The \<open>data\<close> of a successful \<open>assessVoice\<close>.\<close>

record voice_data = transcribed_result +
  assessmentId :: nat

record vocab =
  word :: string
  translation :: string
  example :: string

text \<open>The argument of \<open>assessVoice\<close>; an absent \<open>nativeLanguage\<close> is \<open>None\<close>.\<close>

record voice_params =
  p_userId :: string
  p_lessonDay :: int
  p_targetLanguage :: string
  audioBuffer :: "nat list"
  lessonWords :: "vocab list"
  p_expectedAnswer :: string
  p_nativeLanguage :: "string option"

record settings =
  lessonTime :: string
  notificationEnabled :: bool

text \<open>A user document.\<close>

record user =
  telegramId :: string
  name :: string
  u_targetLanguage :: string
  u_nativeLanguage :: string
  createdAt :: int
  streak :: nat
  totalLessons :: nat
  avgScore :: jsnum
  u_lessonDay :: int
  u_settings :: settings

text \<open>The argument of \<open>upsertUser\<close>; the schema gives a default to every absent field.\<close>

record settings_input =
  in_lessonTime :: "string option"
  in_notificationEnabled :: "bool option"

record user_input =
  in_telegramId :: string
  in_name :: string
  in_targetLanguage :: string
  in_nativeLanguage :: "string option"
  in_createdAt :: "int option"
  in_streak :: "int option"
  in_totalLessons :: "int option"
  in_avgScore :: "rat option"
  in_lessonDay :: "int option"
  in_settings :: "settings_input option"

text \<open>The \<open>updates\<close> object of \<open>updateUserStats\<close>: the fields its callers set.\<close>

record stats_update =
  new_avgScore :: "jsnum option"
  new_streak :: "nat option"
  new_totalLessons :: "nat option"
  new_lessonDay :: "int option"
  new_targetLanguage :: "string option"

text \<open>
  What a call does to the outside is recorded in a trace: a request to the transcription
  service, a request to the grading model, one attempt of a Firestore operation, and
  \<open>setTimeout\<close> with a delay in milliseconds.
\<close>

datatype store_op = Add | Query | Update | SetMerge

datatype event = Transcribe | Grade | Attempt store_op | Sleep nat

text \<open>
  The world: the trace, the \<open>assessments\<close> collection (document id and data, in order of
  creation) and the \<open>users\<close> collection.
\<close>

record world =
  trace :: "event list"
  assessments :: "(nat \<times> assessment) list"
  users :: "string \<rightharpoonup> user"

text \<open>
  The collaborators are scripted: the reply of the k-th transcription request, of the k-th
  grading request, and whether the k-th Firestore request goes through; \<open>time_stored\<close>
  and \<open>time_streak\<close> are the two readings of \<open>new Date()\<close> in \<open>assessVoice\<close>.
\<close>

datatype llm_reply = LlmError | LlmNoChoice | LlmContent "string option"

record env =
  whisper :: "nat \<Rightarrow> nat list \<Rightarrow> string \<Rightarrow> string option"
  llm :: "nat \<Rightarrow> string \<Rightarrow> llm_reply"
  firestore_up :: "nat \<Rightarrow> bool"
  time_stored :: int
  time_streak :: int

definition is_attempt :: "event \<Rightarrow> bool" where
  "is_attempt e = (case e of Attempt _ \<Rightarrow> True | _ \<Rightarrow> False)"

definition n_firestore :: "event list \<Rightarrow> nat" where
  "n_firestore tr = length (filter is_attempt tr)"

definition n_transcribe :: "event list \<Rightarrow> nat" where
  "n_transcribe tr = length (filter (\<lambda>e. e = Transcribe) tr)"

definition n_grade :: "event list \<Rightarrow> nat" where
  "n_grade tr = length (filter (\<lambda>e. e = Grade) tr)"

definition log_event :: "event \<Rightarrow> world \<Rightarrow> world" where
  "log_event e w = w\<lparr>trace := trace w @ [e]\<rparr>"


section \<open>utils/validator.js and the Joi schemas\<close>

text \<open>
  \<open>validate(data, schema)\<close> runs the schema with \<open>abortEarly: false\<close> and joins the messages
  of all violations with \<open>; \<close>. The rules are those written in the schemas (a required Joi
  string is not empty, \<open>integer().min(1)\<close>, \<open>valid('en', 'es', 'fr', 'de')\<close>,
  \<open>array().min(1)\<close>, \<open>min(0).max(100)\<close>, the \<open>lessonTime\<close> pattern); the message texts
  stand for the ones Joi prints. \<open>Joi.binary().required()\<close> accepts every buffer, the empty
  one included.
\<close>

fun join :: "string \<Rightarrow> string list \<Rightarrow> string" where
  "join sep [] = []"
| "join sep [x] = x"
| "join sep (x # y # ys) = x @ sep @ join sep (y # ys)"

definition quoted :: "string \<Rightarrow> string" where
  "quoted field = [CHR 0x22] @ field @ [CHR 0x22]"

definition not_empty :: "string \<Rightarrow> string \<Rightarrow> string list" where
  "not_empty field v = (if v = [] then [quoted field @ '' is not allowed to be empty''] else [])"

definition one_of_languages :: "string \<Rightarrow> string \<Rightarrow> string list" where
  "one_of_languages field v =
     (if v \<in> set [''en'', ''es'', ''fr'', ''de''] then []
      else [quoted field @ '' must be one of [en, es, fr, de]''])"

text \<open>\<open>String(n)\<close> for an integer.\<close>

definition digit_char :: "nat \<Rightarrow> char" where
  "digit_char d = ''0123456789'' ! d"

function decimal :: "nat \<Rightarrow> string" where
  "decimal n =
     (if 10 \<le> n then decimal (n div 10) @ [digit_char (n mod 10)] else [digit_char n])"
  by pat_completeness auto
termination
  by (relation "measure id") auto

declare decimal.simps [simp del]

definition number_text :: "int \<Rightarrow> string" where
  "number_text i = (if 0 \<le> i then decimal (nat i) else CHR ''-'' # decimal (nat (- i)))"

definition at_least :: "string \<Rightarrow> int \<Rightarrow> int \<Rightarrow> string list" where
  "at_least field lo v =
     (if lo \<le> v then []
      else [quoted field @ '' must be greater than or equal to '' @ number_text lo])"

definition vocab_errors :: "vocab \<Rightarrow> string list" where
  "vocab_errors v =
     not_empty ''lessonWords[].word'' (word v)
     @ not_empty ''lessonWords[].translation'' (translation v)
     @ not_empty ''lessonWords[].example'' (example v)"

definition assessmentParams_errors :: "voice_params \<Rightarrow> string list" where
  "assessmentParams_errors p =
     not_empty ''userId'' (p_userId p)
     @ at_least ''lessonDay'' 1 (p_lessonDay p)
     @ one_of_languages ''targetLanguage'' (p_targetLanguage p)
     @ concat (map vocab_errors (lessonWords p))
     @ (if lessonWords p = [] then [quoted ''lessonWords'' @ '' must contain at least 1 items'']
        else [])
     @ not_empty ''expectedAnswer'' (p_expectedAnswer p)
     @ (case p_nativeLanguage p of None \<Rightarrow> [] | Some l \<Rightarrow> not_empty ''nativeLanguage'' l)"

text \<open>A field with a \<open>default\<close> in its schema.\<close>

definition or_default :: "'a option \<Rightarrow> 'a \<Rightarrow> 'a" where
  "or_default v d = (case v of None \<Rightarrow> d | Some x \<Rightarrow> x)"

text \<open>\<open>validate(params, assessmentParamsSchema)\<close>: the messages, or the value with defaults.\<close>

definition validate_params :: "voice_params \<Rightarrow> string + voice_params" where
  "validate_params p =
     (case assessmentParams_errors p of
        [] \<Rightarrow> Inr (p\<lparr>p_nativeLanguage := Some (or_default (p_nativeLanguage p) ''he'')\<rparr>)
      | e # es \<Rightarrow> Inl (join ''; '' (e # es)))"

definition assessment_errors :: "assessment \<Rightarrow> string list" where
  "assessment_errors a =
     not_empty ''userId'' (userId a)
     @ at_least ''lessonDay'' 1 (lessonDay a)
     @ one_of_languages ''targetLanguage'' (targetLanguage a)
     @ (if score a \<le> 100 then [] else [quoted ''score'' @ '' must be less than or equal to 100''])
     @ not_empty ''transcript'' (transcript a)
     @ not_empty ''expectedAnswer'' (expectedAnswer a)
     @ not_empty ''feedback'' (feedback a)
     @ concat (map (not_empty ''strengths[]'') (strengths a))
     @ concat (map (not_empty ''weakAreas[]'') (weakAreas a))"

text \<open>\<open>validate(assessmentData, assessmentSchema)\<close>; every field is present, so no default applies.\<close>

definition validate_assessment :: "assessment \<Rightarrow> string + assessment" where
  "validate_assessment a =
     (case assessment_errors a of [] \<Rightarrow> Inr a | e # es \<Rightarrow> Inl (join ''; '' (e # es)))"

text \<open>\<open>/^([01]\d|2[0-3]):([0-5]\d)$/\<close>.\<close>

definition lessonTime_ok :: "string \<Rightarrow> bool" where
  "lessonTime_ok s =
     (case s of
        [h1, h2, c, m1, m2] \<Rightarrow>
          ((h1 \<in> set ''01'' \<and> is_digit h2) \<or> (h1 = CHR ''2'' \<and> h2 \<in> set ''0123''))
          \<and> c = CHR '':'' \<and> m1 \<in> set ''012345'' \<and> is_digit m2
      | _ \<Rightarrow> False)"

definition user_errors :: "user_input \<Rightarrow> string list" where
  "user_errors u =
     not_empty ''telegramId'' (in_telegramId u)
     @ not_empty ''name'' (in_name u)
     @ one_of_languages ''targetLanguage'' (in_targetLanguage u)
     @ (case in_nativeLanguage u of None \<Rightarrow> [] | Some l \<Rightarrow> not_empty ''nativeLanguage'' l)
     @ (case in_streak u of None \<Rightarrow> [] | Some n \<Rightarrow> at_least ''streak'' 0 n)
     @ (case in_totalLessons u of None \<Rightarrow> [] | Some n \<Rightarrow> at_least ''totalLessons'' 0 n)
     @ (case in_avgScore u of
          None \<Rightarrow> []
        | Some x \<Rightarrow>
            (if 0 \<le> x then [] else [quoted ''avgScore'' @ '' must be greater than or equal to 0''])
            @ (if x \<le> 100 then [] else [quoted ''avgScore'' @ '' must be less than or equal to 100'']))
     @ (case in_lessonDay u of None \<Rightarrow> [] | Some n \<Rightarrow> at_least ''lessonDay'' 1 n)
     @ (case in_settings u of
          None \<Rightarrow> []
        | Some st \<Rightarrow>
            (case in_lessonTime st of
               None \<Rightarrow> []
             | Some t \<Rightarrow>
                 if lessonTime_ok t then []
                 else [quoted ''settings.lessonTime'' @ '' fails to match the required pattern'']))"

text \<open>
  \<open>validate(userData, userSchema)\<close>; \<open>now\<close> is \<open>new Date()\<close>, the default of \<open>createdAt\<close>.
\<close>

definition validate_user :: "int \<Rightarrow> user_input \<Rightarrow> string + user" where
  "validate_user now u =
     (case user_errors u of
        [] \<Rightarrow>
          Inr \<lparr>telegramId = in_telegramId u,
               name = in_name u,
               u_targetLanguage = in_targetLanguage u,
               u_nativeLanguage = or_default (in_nativeLanguage u) ''he'',
               createdAt = or_default (in_createdAt u) now,
               streak = nat (or_default (in_streak u) 0),
               totalLessons = nat (or_default (in_totalLessons u) 0),
               avgScore = Num (or_default (in_avgScore u) 0),
               u_lessonDay = or_default (in_lessonDay u) 1,
               u_settings =
                 (case in_settings u of
                    None \<Rightarrow> \<lparr>lessonTime = ''09:00'', notificationEnabled = True\<rparr>
                  | Some st \<Rightarrow>
                      \<lparr>lessonTime = or_default (in_lessonTime st) ''09:00'',
                       notificationEnabled = or_default (in_notificationEnabled st) True\<rparr>)\<rparr>
      | e # es \<Rightarrow> Inl (join ''; '' (e # es)))"

section \<open>services/firebaseService.js\<close>

text \<open>
  \<open>delays[attempt] || delays[delays.length - 1]\<close>: an index out of range and a delay of
  \<open>0\<close> both fall back to the last delay; with no delays at all the timer gets \<open>undefined\<close>,
  which \<open>setTimeout\<close> takes as \<open>0\<close>.
\<close>

definition delay_for :: "nat list \<Rightarrow> nat \<Rightarrow> nat" where
  "delay_for delays attempt =
     (if attempt < length delays \<and> delays ! attempt \<noteq> 0 then delays ! attempt
      else if delays = [] then 0
      else last delays)"

text \<open>
  The loop of \<open>retryWithBackoff\<close>, from \<open>attempt\<close> on: \<open>fn\<close> either returns or throws, and
  changes the world. After the loop \<open>lastError\<close> is thrown.
\<close>

function retry_loop ::
  "(world \<Rightarrow> (exn + 'a) \<times> world) \<Rightarrow> nat \<Rightarrow> nat list \<Rightarrow> nat \<Rightarrow> exn option \<Rightarrow> world
   \<Rightarrow> (exn option + 'a) \<times> world" where
  "retry_loop fn maxRetries delays attempt lastError w =
     (if attempt \<le> maxRetries then
        (case fn w of
           (Inr v, w') \<Rightarrow> (Inr v, w')
         | (Inl error, w') \<Rightarrow>
             retry_loop fn maxRetries delays (attempt + 1) (Some error)
               (if attempt < maxRetries
                then log_event (Sleep (delay_for delays attempt)) w'
                else w'))
      else (Inl lastError, w))"
  by pat_completeness auto
termination
  by (relation "measure (\<lambda>(fn, maxRetries, delays, attempt, lastError, w). maxRetries + 1 - attempt)")
     auto

declare retry_loop.simps [simp del]

definition retryWithBackoff ::
  "(world \<Rightarrow> (exn + 'a) \<times> world) \<Rightarrow> nat \<Rightarrow> nat list \<Rightarrow> world \<Rightarrow> (exn option + 'a) \<times> world" where
  "retryWithBackoff fn maxRetries delays w = retry_loop fn maxRetries delays 0 None w"

text \<open>The default arguments \<open>maxRetries = 3, delays = [100, 200, 400]\<close>.\<close>

definition retryWithBackoff_default ::
  "(world \<Rightarrow> (exn + 'a) \<times> world) \<Rightarrow> world \<Rightarrow> (exn option + 'a) \<times> world" where
  "retryWithBackoff_default fn w = retryWithBackoff fn 3 [100, 200, 400] w"

text \<open>
  What \<open>retryWithBackoff\<close> with the default arguments leaves in the trace when the first
  \<open>j\<close> attempts of an operation throw and one more attempt is made: the attempts, with the
  delays between them.
\<close>

fun attempts_trace :: "store_op \<Rightarrow> nat \<Rightarrow> event list" where
  "attempts_trace op 0 = [Attempt op]"
| "attempts_trace op (Suc j) =
     attempts_trace op j @ [Sleep (delay_for [100, 200, 400] j), Attempt op]"

text \<open>The next \<open>j\<close> Firestore requests fail; the request after \<open>j\<close> more goes through.\<close>

definition requests_fail :: "env \<Rightarrow> world \<Rightarrow> nat \<Rightarrow> bool" where
  "requests_fail env w j = (\<forall>k<j. \<not> firestore_up env (n_firestore (trace w) + k))"

definition request_ok :: "env \<Rightarrow> world \<Rightarrow> nat \<Rightarrow> bool" where
  "request_ok env w j = firestore_up env (n_firestore (trace w) + j)"

text \<open>
  One attempt of a Firestore operation: it is recorded, it throws when the script says
  that the request fails, and it runs the operation \<open>run\<close> on the collections otherwise
  (\<open>run\<close> itself may throw, as \<open>update\<close> does for a missing document).
\<close>

definition firestore_call ::
  "env \<Rightarrow> store_op \<Rightarrow> (world \<Rightarrow> exn + 'a \<times> world) \<Rightarrow> world \<Rightarrow> (exn + 'a) \<times> world" where
  "firestore_call env op run w =
     (let k = n_firestore (trace w);
          w1 = log_event (Attempt op) w
      in if firestore_up env k then
           (case run w1 of
              Inr (v, w2) \<Rightarrow> (Inr v, w2)
            | Inl e \<Rightarrow> (Inl e, w1))
         else (Inl ServiceError, w1))"

text \<open>\<open>db.collection('users').doc(id).set(data, {merge: true})\<close>: the validated data holds
  every field of the schema, so the merge replaces them all.\<close>

definition user_doc_set :: "user \<Rightarrow> world \<Rightarrow> exn + unit \<times> world" where
  "user_doc_set u w = Inr ((), w\<lparr>users := (users w)(telegramId u \<mapsto> u)\<rparr>)"

definition upsertUser :: "env \<Rightarrow> int \<Rightarrow> user_input \<Rightarrow> world \<Rightarrow> unit response \<times> world" where
  "upsertUser env now userData w =
     (case validate_user now userData of
        Inl err \<Rightarrow> (Failure err ERR_INVALID_INPUT, w)
      | Inr validatedData \<Rightarrow>
          (case retryWithBackoff_default (firestore_call env SetMerge (user_doc_set validatedData)) w of
             (Inr _, w') \<Rightarrow> (Success (), w')
           | (Inl _, w') \<Rightarrow> (Failure ''Failed to save user data'' ERR_DATABASE_ERROR, w')))"

text \<open>\<open>db.collection('assessments').add(data)\<close>: the store assigns a fresh document id.\<close>

definition assessments_add :: "assessment \<Rightarrow> world \<Rightarrow> exn + nat \<times> world" where
  "assessments_add a w =
     (let docId = length (assessments w)
      in Inr (docId, w\<lparr>assessments := assessments w @ [(docId, a)]\<rparr>))"

definition storeAssessment :: "env \<Rightarrow> assessment \<Rightarrow> world \<Rightarrow> nat response \<times> world" where
  "storeAssessment env assessmentData w =
     (case validate_assessment assessmentData of
        Inl err \<Rightarrow> (Failure err ERR_INVALID_INPUT, w)
      | Inr validatedData \<Rightarrow>
          (case retryWithBackoff_default (firestore_call env Add (assessments_add validatedData)) w of
             (Inr docId, w') \<Rightarrow> (Success docId, w')
           | (Inl _, w') \<Rightarrow> (Failure ''Failed to save assessment'' ERR_DATABASE_ERROR, w')))"

text \<open>
  \<open>.where('userId', '==', userId).orderBy('timestamp', 'desc').limit(limit).get()\<close>:
  the most recent \<open>limit\<close> assessments of the user, newest first (documents with equal
  timestamps come in the order the model fixes here).
\<close>

definition recent_assessments :: "string \<Rightarrow> nat \<Rightarrow> (nat \<times> assessment) list \<Rightarrow> (nat \<times> assessment) list" where
  "recent_assessments uid limit docs =
     take limit (rev (sort_key (\<lambda>d. timestamp (snd d)) (filter (\<lambda>d. userId (snd d) = uid) docs)))"

definition assessments_query ::
  "string \<Rightarrow> nat \<Rightarrow> world \<Rightarrow> exn + (nat \<times> assessment) list \<times> world" where
  "assessments_query uid limit w = Inr (recent_assessments uid limit (assessments w), w)"

definition getUserAssessments ::
  "env \<Rightarrow> string \<Rightarrow> nat \<Rightarrow> world \<Rightarrow> (nat \<times> assessment) list response \<times> world" where
  "getUserAssessments env uid limit w =
     (case retryWithBackoff_default (firestore_call env Query (assessments_query uid limit)) w of
        (Inr docs, w') \<Rightarrow> (Success docs, w')
      | (Inl _, w') \<Rightarrow> (Failure ''Failed to retrieve assessments'' ERR_DATABASE_ERROR, w'))"

text \<open>\<open>db.collection('users').doc(userId).update(updates)\<close>, which rejects when the document
  does not exist.\<close>

definition apply_update :: "stats_update \<Rightarrow> user \<Rightarrow> user" where
  "apply_update up u =
     u\<lparr>avgScore := or_default (new_avgScore up) (avgScore u),
       streak := or_default (new_streak up) (streak u),
       totalLessons := or_default (new_totalLessons up) (totalLessons u),
       u_lessonDay := or_default (new_lessonDay up) (u_lessonDay u),
       u_targetLanguage := or_default (new_targetLanguage up) (u_targetLanguage u)\<rparr>"

definition user_doc_update :: "string \<Rightarrow> stats_update \<Rightarrow> world \<Rightarrow> exn + unit \<times> world" where
  "user_doc_update uid up w =
     (case users w uid of
        None \<Rightarrow> Inl ServiceError
      | Some u \<Rightarrow> Inr ((), w\<lparr>users := (users w)(uid \<mapsto> apply_update up u)\<rparr>))"

definition updateUserStats :: "env \<Rightarrow> string \<Rightarrow> stats_update \<Rightarrow> world \<Rightarrow> unit response \<times> world" where
  "updateUserStats env uid updates w =
     (case retryWithBackoff_default (firestore_call env Update (user_doc_update uid updates)) w of
        (Inr _, w') \<Rightarrow> (Success (), w')
      | (Inl _, w') \<Rightarrow> (Failure ''Failed to update user statistics'' ERR_DATABASE_ERROR, w'))"


section \<open>services/openaiService.js\<close>

text \<open>\<open>retryOnce(fn, delay)\<close>: a second call after the delay when the first one throws.\<close>

definition retryOnce ::
  "(world \<Rightarrow> (exn + 'a) \<times> world) \<Rightarrow> nat \<Rightarrow> world \<Rightarrow> (exn + 'a) \<times> world" where
  "retryOnce fn delay w =
     (case fn w of
        (Inr v, w') \<Rightarrow> (Inr v, w')
      | (Inl error, w') \<Rightarrow> fn (log_event (Sleep delay) w'))"

text \<open>One request to the transcription service.\<close>

definition whisper_request ::
  "env \<Rightarrow> nat list \<Rightarrow> string \<Rightarrow> world \<Rightarrow> (exn + string) \<times> world" where
  "whisper_request env audio whisperLanguage w =
     (let k = n_transcribe (trace w);
          w1 = log_event Transcribe w
      in case whisper env k audio whisperLanguage of
           None \<Rightarrow> (Inl ServiceError, w1)
         | Some text \<Rightarrow> (Inr text, w1))"

definition transcribeAudio ::
  "env \<Rightarrow> nat list \<Rightarrow> string \<Rightarrow> world \<Rightarrow> string response \<times> world" where
  "transcribeAudio env audio language w =
     (if length audio = 0 then (Failure ''Audio buffer is empty'' ERR_INVALID_INPUT, w)
      else
        let whisperLanguage =
              (if language \<in> set [''en'', ''es'', ''fr'', ''de''] then language else ''en'')
        in case retryOnce (whisper_request env audio whisperLanguage) 1000 w of
             (Inr text, w') \<Rightarrow> (Success text, w')
           | (Inl _, w') \<Rightarrow> (Failure ''Audio transcription failed'' ERR_TRANSCRIPTION_FAILED, w'))"

definition languageNames :: "string \<Rightarrow> string" where
  "languageNames l =
     (case map_of [(''en'', ''English''), (''es'', ''Spanish''), (''fr'', ''French''),
                   (''de'', ''German''), (''he'', ''Hebrew'')] l of
        Some n \<Rightarrow> n
      | None \<Rightarrow> l)"

definition grading_prompt :: "string \<Rightarrow> string \<Rightarrow> string \<Rightarrow> vocab list \<Rightarrow> string \<Rightarrow> string" where
  "grading_prompt spoken target native ws expected =
     ''You are an expert teacher for '' @ languageNames native @ '' speakers learning ''
     @ languageNames target
     @ ''.\<newline>Grade this beginner-level response:\<newline>\<newline>TRANSCRIPT: '' @ spoken
     @ ''\<newline>LESSON WORDS: '' @ join '', '' (map word ws)
     @ ''\<newline>EXPECTED: '' @ expected
     @ ''\<newline>\<newline>Score 0-100 using rubric:\<newline>- Pronunciation: 25 points\<newline>- Grammar: 25 points\<newline>- Vocabulary: 20 points\<newline>- Fluency: 20 points\<newline>- Comprehension: 10 points\<newline>\<newline>RESPOND ONLY with:\<newline>SCORE: X/100\<newline>FEEDBACK: [1-2 sentences of actionable advice]\<newline>STRENGTHS: [comma-separated list]\<newline>WEAK_AREAS: [comma-separated list]''"

text \<open>One request to the grading model; the reply is the completion.\<close>

definition llm_request :: "env \<Rightarrow> string \<Rightarrow> world \<Rightarrow> (exn + llm_reply) \<times> world" where
  "llm_request env prompt w =
     (let k = n_grade (trace w);
          w1 = log_event Grade w
      in case llm env k prompt of
           LlmError \<Rightarrow> (Inl ServiceError, w1)
         | reply \<Rightarrow> (Inr reply, w1))"

text \<open>
  \<open>completion.choices[0].message.content\<close> throws on a completion without choices; this
  happens after \<open>retryOnce\<close>, inside the same \<open>try\<close>.
\<close>

definition gradeTranscript ::
  "env \<Rightarrow> string \<Rightarrow> string \<Rightarrow> string \<Rightarrow> vocab list \<Rightarrow> string \<Rightarrow> world
   \<Rightarrow> string option response \<times> world" where
  "gradeTranscript env spoken target native ws expected w =
     (case retryOnce (llm_request env (grading_prompt spoken target native ws expected)) 1000 w of
        (Inr (LlmContent llmResponse), w') \<Rightarrow> (Success llmResponse, w')
      | (_, w') \<Rightarrow> (Failure ''Grading failed'' ERR_GRADING_FAILED, w'))"

section \<open>services/assessmentService.js\<close>

text \<open>
  \<open>date.toISOString().split('T')[0]\<close> is the UTC calendar date of a timestamp. A date is
  modelled by its day number: for the years 0000 to 9999 the \<open>YYYY-MM-DD\<close> strings sort
  as the day numbers do, and \<open>new Date(s)\<close> of such a string is midnight UTC of that day, so
  \<open>Math.floor((currentDate - nextDate) / 86400000)\<close> is the difference of the day numbers.
\<close>

definition utc_day :: "int \<Rightarrow> int" where
  "utc_day ms = ms div 86400000"

text \<open>\<open>Array.from(uniqueDates).sort().reverse()\<close> after the dates of the assessments and the
  new date have been added to the set.\<close>

definition sortedDates :: "(nat \<times> assessment) list \<Rightarrow> int \<Rightarrow> int list" where
  "sortedDates docs newAssessmentDate =
     rev (sort (remdups (map (\<lambda>d. utc_day (timestamp (snd d))) docs @ [utc_day newAssessmentDate])))"

text \<open>The loop: \<open>streak\<close> starts at 1 and grows while neighbours are one day apart.\<close>

fun count_streak :: "int list \<Rightarrow> nat" where
  "count_streak (currentDate # nextDate # rest) =
     (if currentDate - nextDate = 1 then Suc (count_streak (nextDate # rest)) else 1)"
| "count_streak _ = 1"

definition calculateStreak :: "env \<Rightarrow> string \<Rightarrow> int \<Rightarrow> world \<Rightarrow> nat \<times> world" where
  "calculateStreak env uid newAssessmentDate w =
     (case getUserAssessments env uid 100 w of
        (Failure _ _, w') \<Rightarrow> (1, w')
      | (Success docs, w') \<Rightarrow>
          if length docs = 0 then (1, w')
          else (count_streak (sortedDates docs newAssessmentDate), w'))"

text \<open>
  \<open>allAssessments.reduce((sum, a) => sum + a.score, 0) / allAssessments.length\<close> and
  \<open>Math.round(avgScore * 10) / 10\<close>. The scores are integers from 0 to 100 and at most
  50 of them are read, so the sum is exact; for such a sum and count the doubles
  \<open>sum / n\<close> and \<open>(sum / n) * 10\<close> round to the same integer as the exact quotient, and the
  result is the double written with one decimal.
\<close>

definition mean :: "nat list \<Rightarrow> jsnum" where
  "mean xs = (if length xs = 0 then NaN else Num (of_nat (sum_list xs) / of_nat (length xs)))"

definition js_round :: "rat \<Rightarrow> int" where
  "js_round x = \<lfloor>x + 1 / 2\<rfloor>"

fun round1 :: "jsnum \<Rightarrow> jsnum" where
  "round1 NaN = NaN"
| "round1 (Num x) = Num (of_int (js_round (x * 10)) / 10)"

text \<open>Step 5 of \<open>assessVoice\<close>, "Update user statistics"; the result of the update is dropped.\<close>

definition update_statistics :: "env \<Rightarrow> string \<Rightarrow> world \<Rightarrow> world" where
  "update_statistics env uid w =
     (case getUserAssessments env uid 50 w of
        (Failure _ _, w1) \<Rightarrow> w1
      | (Success allAssessments, w1) \<Rightarrow>
          let avg = mean (map (\<lambda>d. score (snd d)) allAssessments);
              (newStreak, w2) = calculateStreak env uid (time_streak env) w1
          in snd (updateUserStats env uid
                    \<lparr>new_avgScore = Some (round1 avg), new_streak = Some newStreak,
                     new_totalLessons = None, new_lessonDay = None, new_targetLanguage = None\<rparr>
                    w2))"

text \<open>The object \<open>assessmentData\<close> of step 4; \<open>timestamp\<close> is \<open>new Date()\<close>.\<close>

definition assessment_record :: "env \<Rightarrow> voice_params \<Rightarrow> string \<Rightarrow> graded_result \<Rightarrow> assessment" where
  "assessment_record env validatedParams text g =
     \<lparr>score = score g, feedback = feedback g, strengths = strengths g,
      weakAreas = weakAreas g, transcript = text,
      userId = p_userId validatedParams,
      lessonDay = p_lessonDay validatedParams,
      targetLanguage = p_targetLanguage validatedParams,
      expectedAnswer = p_expectedAnswer validatedParams,
      timestamp = time_stored env\<rparr>"

text \<open>
  Every callee catches its own exceptions and the parser does not throw, so the outer
  \<open>catch\<close> of \<open>assessVoice\<close> is not reached from any branch below. The validated
  parameters always carry a \<open>nativeLanguage\<close>: the schema has filled in \<open>he\<close>.
\<close>

definition assessVoice :: "env \<Rightarrow> voice_params \<Rightarrow> world \<Rightarrow> voice_data response \<times> world" where
  "assessVoice env params w =
     (case validate_params params of
        Inl err \<Rightarrow> (Failure err ERR_INVALID_INPUT, w)
      | Inr validatedParams \<Rightarrow>
          (case transcribeAudio env (audioBuffer validatedParams)
                  (p_targetLanguage validatedParams) w of
             (Failure err c, w1) \<Rightarrow> (Failure err c, w1)
           | (Success text, w1) \<Rightarrow>
               (case gradeTranscript env text (p_targetLanguage validatedParams)
                       (or_default (p_nativeLanguage validatedParams) ''he'')
                       (lessonWords validatedParams)
                       (p_expectedAnswer validatedParams) w1 of
                  (Failure err c, w2) \<Rightarrow> (Failure err c, w2)
                | (Success llmResponse, w2) \<Rightarrow>
                    let g = parseGradingResponse llmResponse;
                        assessmentData = assessment_record env validatedParams text g
                    in (case storeAssessment env assessmentData w2 of
                          (Failure err c, w3) \<Rightarrow> (Failure err c, w3)
                        | (Success docId, w3) \<Rightarrow>
                            (Success
                               \<lparr>score = score g, feedback = feedback g, strengths = strengths g,
                                weakAreas = weakAreas g, transcript = text,
                                assessmentId = docId\<rparr>,
                             update_statistics env (p_userId validatedParams) w3)))))"

section \<open>services/lessonService.js\<close>

text \<open>
  The catalog \<open>config/languages\<close> is a parameter: \<open>languages[languageCode]\<close> is \<open>None\<close> when
  the lookup is falsy. An entry whose \<open>lessons\<close> is \<open>None\<close> has no \<open>lessons\<close> property (as
  the members inherited from \<open>Object.prototype\<close>), so \<open>language.lessons[lessonDay]\<close>
  throws; a lesson whose \<open>words\<close> is \<open>None\<close> has no \<open>words\<close>.
\<close>

record lesson =
  title :: string
  l_words :: "vocab list option"
  quizPrompt :: string

record language =
  lang_name :: string
  lang_flag :: string
  lang_nativeLanguage :: string
  lessons :: "(int \<rightharpoonup> lesson) option"



section \<open>Example inputs\<close>

text \<open>
  Concrete values for the evaluated instances below: a learner \<open>42\<close> with two stored
  assessments (scores 70 and 80, on day 0 and day 1), a grading reply in the requested
  format, a scripted environment, and a log of 101 assessments.
\<close>

definition example_reply :: string where
  "example_reply =
     ''SCORE: 85/100\<newline>FEEDBACK: Great job!\<newline>STRENGTHS: clarity, pace\<newline>WEAK_AREAS: grammar''"

definition example_assessment :: "string \<Rightarrow> int \<Rightarrow> nat \<Rightarrow> assessment" where
  "example_assessment uid ts sc =
     \<lparr>score = sc, feedback = ''Good.'', strengths = [], weakAreas = [],
      transcript = ''hello'', userId = uid, lessonDay = 1, targetLanguage = ''en'',
      expectedAnswer = ''Introduce yourself'', timestamp = ts\<rparr>"

definition example_user :: user where
  "example_user =
     \<lparr>telegramId = ''42'', name = ''Dana'', u_targetLanguage = ''en'', u_nativeLanguage = ''he'',
      createdAt = 0, streak = 0, totalLessons = 0, avgScore = Num 0, u_lessonDay = 1,
      u_settings = \<lparr>lessonTime = ''09:00'', notificationEnabled = True\<rparr>\<rparr>"

definition example_user_input :: user_input where
  "example_user_input =
     \<lparr>in_telegramId = ''42'', in_name = ''Dana'', in_targetLanguage = ''en'',
      in_nativeLanguage = Some ''he'', in_createdAt = Some 0, in_streak = Some 0,
      in_totalLessons = Some 0, in_avgScore = Some 0, in_lessonDay = Some 1,
      in_settings = Some \<lparr>in_lessonTime = Some ''09:00'', in_notificationEnabled = Some True\<rparr>\<rparr>"

definition example_update :: stats_update where
  "example_update =
     \<lparr>new_avgScore = Some (Num 85), new_streak = Some 1, new_totalLessons = None,
      new_lessonDay = None, new_targetLanguage = None\<rparr>"

definition example_world :: world where
  "example_world =
     \<lparr>trace = [],
      assessments = [(0, example_assessment ''42'' 0 70),
                     (1, example_assessment ''42'' 86400000 80)],
      users = [''42'' \<mapsto> example_user]\<rparr>"

definition example_env :: "(nat \<Rightarrow> string option) \<Rightarrow> (nat \<Rightarrow> bool) \<Rightarrow> env" where
  "example_env heard up =
     \<lparr>whisper = (\<lambda>k audio l. heard k),
      llm = (\<lambda>k prompt. LlmContent (Some example_reply)),
      firestore_up = up,
      time_stored = 172800000,
      time_streak = 172800000\<rparr>"

definition example_params :: "nat list \<Rightarrow> voice_params" where
  "example_params audio =
     \<lparr>p_userId = ''42'', p_lessonDay = 1, p_targetLanguage = ''en'', audioBuffer = audio,
      lessonWords = [\<lparr>word = ''hello'', translation = ''shalom'', example = ''Hello, Dana!''\<rparr>],
      p_expectedAnswer = ''Introduce yourself'', p_nativeLanguage = None\<rparr>"

definition example_stored :: assessment where
  "example_stored =
     \<lparr>score = 85, feedback = ''Great job!'', strengths = [''clarity'', ''pace''],
      weakAreas = [''grammar''], transcript = ''hello my name is Dana'', userId = ''42'',
      lessonDay = 1, targetLanguage = ''en'', expectedAnswer = ''Introduce yourself'',
      timestamp = 172800000\<rparr>"

definition example_validated :: voice_params where
  "example_validated = (example_params [79, 103, 103, 83])\<lparr>p_nativeLanguage := Some ''he''\<rparr>"





section \<open>Properties of the response parser\<close>

text \<open>\<open>occurs_ci\<close> says that the text has a piece equal to the label up to the case of letters.\<close>

lemma search_None_iff: "search m xs = None \<longleftrightarrow> (\<forall>s. suffix s xs \<longrightarrow> m s = None)"
proof (induction xs)
  case Nil
  then show ?case by simp
next
  case (Cons x xs)
  then show ?case by (auto simp: suffix_Cons split: option.splits)
qed

lemma lit_ci_Some_iff:
  "lit_ci L s = Some r \<longleftrightarrow> (\<exists>m. s = m @ r \<and> map upper m = map upper L)"
proof (induction L s rule: lit_ci.induct)
  case (1 s)
  then show ?case by auto
next
  case (2 p ps)
  then show ?case by auto
next
  case (3 p ps c cs)
  show ?case
  proof (cases "upper p = upper c")
    case True
    show ?thesis 
    proof
      assume "lit_ci (p # ps) (c # cs) = Some r"
      with True 3 obtain m where "cs = m @ r" "map upper m = map upper ps" by auto
      then have "c # cs = (c # m) @ r \<and> map upper (c # m) = map upper (p # ps)" using True by simp
      then show "\<exists>m. c # cs = m @ r \<and> map upper m = map upper (p # ps)" by blast
    next
      assume "\<exists>m. c # cs = m @ r \<and> map upper m = map upper (p # ps)"
      then obtain m where m: "c # cs = m @ r" "map upper m = map upper (p # ps)" by blast
      then obtain m' where "m = c # m'" by (cases m) auto
      with m have "cs = m' @ r" "map upper m' = map upper ps" by auto
      with True 3 show "lit_ci (p # ps) (c # cs) = Some r" by auto
    qed
  next
    case False
    then show ?thesis by (auto simp: Cons_eq_append_conv map_eq_Cons_conv)
  qed
qed

lemma occurs_ci_iff:
  "occurs_ci L text \<longleftrightarrow> (\<exists>pre m post. text = pre @ m @ post \<and> map upper m = map upper L)"
proof -
  have "occurs_ci L text \<longleftrightarrow> (\<exists>s. suffix s text \<and> lit_ci L s \<noteq> None)"
    by (simp add: occurs_ci_def search_None_iff)
  also have "\<dots> \<longleftrightarrow> (\<exists>pre m post. text = pre @ m @ post \<and> map upper m = map upper L)"
    by (auto simp: suffix_def lit_ci_Some_iff) 
  finally show ?thesis .
qed

lemma star_greedy_skip:
  "k (acc @ takeWhile P s) (dropWhile P s) = Some v \<Longrightarrow> star_greedy P k acc s = Some v"
  by (induction s arbitrary: acc) auto

lemma lazy_more_stop:
  "stop ys \<Longrightarrow> \<forall>i<length xs. \<not> stop (drop i xs @ ys) \<Longrightarrow>
   lazy_more (\<lambda>cap rest. if stop rest then Some cap else None) acc (xs @ ys) = Some (acc @ xs)"
proof (induction xs arbitrary: acc)
  case Nil
  then show ?case by (cases ys) auto
next
  case (Cons x xs)
  from Cons.prems(2) have "\<not> stop ((x # xs) @ ys)" by (metis drop0 length_greater_0_conv list.discI)
  moreover have "\<forall>i<length xs. \<not> stop (drop i xs @ ys)"
    using Cons.prems(2) by (metis Suc_less_eq drop_Suc_Cons length_Cons)
  ultimately show ?case using Cons.IH [OF Cons.prems(1), of "acc @ [x]"] by simp
qed

lemma search_here: "m s = Some v \<Longrightarrow> search m s = Some v"
  by (cases s) auto

lemma lit_ci_self: "lit_ci L (L @ r) = Some r"
  by (induction L) auto

lemma lit_ci_sep:
  "lit_ci L (xs @ d # ys) \<noteq> None \<Longrightarrow> \<forall>p\<in>set L. upper p \<noteq> upper d \<Longrightarrow> lit_ci L xs \<noteq> None"
  by (induction L xs rule: lit_ci.induct) (auto split: if_splits)

lemma occurs_ci_suffix: "\<not> occurs_ci L b \<Longrightarrow> suffix s b \<Longrightarrow> lit_ci L s = None"
  by (simp add: occurs_ci_def search_None_iff)

lemma occurs_ci_Cons:
  "occurs_ci L (x # xs) \<longleftrightarrow> lit_ci L (x # xs) \<noteq> None \<or> occurs_ci L xs"
  by (auto simp: occurs_ci_def split: option.splits)

lemma occurs_ci_Nil: "occurs_ci L [] \<longleftrightarrow> L = []"
  by (cases L) (auto simp: occurs_ci_def)

lemma section_search_skip:
  assumes "\<not> occurs_ci L xs" and "\<forall>p\<in>set L. upper p \<noteq> upper d" and "L \<noteq> []"
  shows "search (section_re L stop) (xs @ d # ys) = search (section_re L stop) ys"
  using assms(1)
proof (induction xs)
  case Nil
  from assms(2,3) have "lit_ci L (d # ys) = None" by (cases L) auto
  then show ?case by (simp add: section_re_def)
next
  case (Cons x xs)
  then have a: "lit_ci L (x # xs) = None" and b: "\<not> occurs_ci L xs"
    by (auto simp: occurs_ci_Cons)
  from a have "lit_ci L ((x # xs) @ d # ys) = None"
    using lit_ci_sep [OF _ assms(2)] by blast
  then have "section_re L stop (x # xs @ d # ys) = None" by (simp add: section_re_def)
  then show ?case using Cons.IH [OF b] by simp
qed

lemma section_re_line:
  assumes "\<exists>c\<in>set b. \<not> is_space c" and "stop ys"
    and "\<forall>s. suffix s b \<and> s \<noteq> [] \<longrightarrow> \<not> stop (s @ ys)"
  shows "section_re L stop (L @ CHR '' '' # b @ ys) = Some (dropWhile is_space b)"
proof -
  let ?k = "\<lambda>cap rest. if stop rest then Some cap else None"
  from assms(1) obtain c where c: "c \<in> set b" "\<not> is_space c" by blast
  then have dw: "dropWhile is_space (CHR '' '' # b @ ys) = dropWhile is_space b @ ys"
    by (simp add: is_space_def dropWhile_append1)
  from c have "dropWhile is_space b \<noteq> []" by (auto simp: dropWhile_eq_Nil_conv)
  then obtain h t where ht: "dropWhile is_space b = h # t" by (cases "dropWhile is_space b") auto
  have suf: "suffix t b"
    by (metis ht suffix_ConsD suffix_dropWhile)
  have "\<forall>i<length t. \<not> stop (drop i t @ ys)"
  proof (intro allI impI)
    fix i assume "i < length t"
    then have "drop i t \<noteq> []" by simp
    moreover have "suffix (drop i t) b" using suf suffix_drop suffix_order.trans by blast
    ultimately show "\<not> stop (drop i t @ ys)" using assms(3) by blast
  qed
  then have "lazy_more ?k [h] (t @ ys) = Some ([h] @ t)"
    using lazy_more_stop [of stop ys t "[h]"] assms(2) by blast
  then have "plus_lazy ?k (dropWhile is_space b @ ys) = Some (dropWhile is_space b)"
    by (simp add: ht plus_lazy_def)
  then have "plus_lazy ?k (dropWhile is_space (CHR '' '' # b @ ys)) = Some (dropWhile is_space b)"
    by (simp only: dw)
  then have "star_greedy is_space (\<lambda>_. plus_lazy ?k) [] (CHR '' '' # b @ ys)
             = Some (dropWhile is_space b)"
    by (intro star_greedy_skip) 
  then show ?thesis by (simp add: section_re_def lit_ci_self)
qed

lemma star_greedy_blank:
  "\<forall>c\<in>set ws. P c \<Longrightarrow> ws \<noteq> [] \<Longrightarrow>
   star_greedy P (\<lambda>_. plus_lazy (\<lambda>cap rest. if at_end rest then Some cap else None)) acc ws
     = Some [last ws]"
proof (induction ws arbitrary: acc)
  case Nil
  then show ?case by simp
next
  case (Cons w ws)
  show ?case
  proof (cases ws)
    case Nil
    with Cons.prems show ?thesis by (simp add: plus_lazy_def at_end_def)
  next
    case (Cons w' ws')
    with Cons.prems Cons.IH [of "acc @ [w]"] show ?thesis by simp
  qed
qed

lemma section_re_blank_end:
  assumes "\<forall>c\<in>set wk. is_space c"
  shows "\<exists>w. is_space w \<and> section_re L at_end (L @ CHR '' '' # wk) = Some [w]"
proof -
  have sp: "\<forall>c\<in>set (CHR '' '' # wk). is_space c" using assms by (simp add: is_space_def)
  then have "is_space (last (CHR '' '' # wk))" using last_in_set by blast
  moreover have "section_re L at_end (L @ CHR '' '' # wk) = Some [last (CHR '' '' # wk)]"
    using star_greedy_blank [OF sp, of "[]"] by (simp add: section_re_def lit_ci_self)
  ultimately show ?thesis by blast
qed

lemma trim_blank: "\<forall>c\<in>set s. is_space c \<Longrightarrow> trim s = []"
proof -
  assume a: "\<forall>c\<in>set s. is_space c"
  then have h: "dropWhile is_space s = []" by (simp add: dropWhile_eq_Nil_conv)
  show ?thesis unfolding trim_def h by simp
qed

lemma trim_dropWhile: "trim (dropWhile is_space s) = trim s"
  by (simp add: trim_def)

lemma is_digit_not_space: "is_digit c \<Longrightarrow> \<not> is_space c"
  by (auto simp: is_digit_def is_space_def)

lemma not_digit_slash: "\<not> is_digit (CHR ''/'')"
  by (simp add: is_digit_def)

lemma score_re_here:
  assumes "ds \<noteq> []" and "\<forall>c\<in>set ds. is_digit c"
  shows "score_re (''SCORE:'' @ CHR '' '' # ds @ ''/100'' @ rest) = Some ds"
proof -
  let ?k2 = "\<lambda>ds r'. case lit_ci ''/100'' r' of None \<Rightarrow> None | Some _ \<Rightarrow> Some (ds :: string)"
  from assms(1) obtain d ds' where ds: "ds = d # ds'" by (cases ds) auto
  with assms(2) have d: "is_digit d" and ds': "\<And>x. x \<in> set ds' \<Longrightarrow> is_digit x" by auto
  have tw: "takeWhile is_digit (ds' @ ''/100'' @ rest) = ds'"
    using ds' by (simp add: takeWhile_append2 not_digit_slash)
  have dw: "dropWhile is_digit (ds' @ ''/100'' @ rest) = ''/100'' @ rest"
    using ds' by (simp add: dropWhile_append2 not_digit_slash)
  have "?k2 ([d] @ takeWhile is_digit (ds' @ ''/100'' @ rest))
            (dropWhile is_digit (ds' @ ''/100'' @ rest)) = Some ds"
    unfolding tw dw by (simp add: ds lit_ci_self)
  then have "star_greedy is_digit ?k2 [d] (ds' @ ''/100'' @ rest) = Some ds"
    by (rule star_greedy_skip)
  then have pg: "plus_greedy is_digit ?k2 (ds @ ''/100'' @ rest) = Some ds"
    by (simp add: plus_greedy_def ds d)
  have "dropWhile is_space (CHR '' '' # ds @ ''/100'' @ rest) = ds @ ''/100'' @ rest"
    using is_digit_not_space [OF d] by (simp add: ds is_space_def)
  with pg have "(\<lambda>_. plus_greedy is_digit ?k2)
        ([] @ takeWhile is_space (CHR '' '' # ds @ ''/100'' @ rest))
        (dropWhile is_space (CHR '' '' # ds @ ''/100'' @ rest)) = Some ds"
    by simp
  then have "star_greedy is_space (\<lambda>_. plus_greedy is_digit ?k2) []
               (CHR '' '' # ds @ ''/100'' @ rest) = Some ds"
    by (rule star_greedy_skip)
  then show ?thesis
    unfolding score_re_def lit_ci_self by simp
qed

lemma upper_other: "c \<notin> set ''abcdefghijklmnopqrstuvwxyz'' \<Longrightarrow> upper c = c"
  by (simp add: upper_def)

lemma upper_letter:
  "c \<in> set ''abcdefghijklmnopqrstuvwxyz'' \<Longrightarrow> upper c \<in> set ''ABCDEFGHIJKLMNOPQRSTUVWXYZ''"
  by (simp, elim disjE, simp_all add: upper_def)

lemma upper_newline: "upper c = CHR ''\<newline>'' \<longleftrightarrow> c = CHR ''\<newline>''"
proof (cases "c \<in> set ''abcdefghijklmnopqrstuvwxyz''")
  case True
  from upper_letter [OF True] have "upper c \<noteq> CHR ''\<newline>''" by auto
  moreover from True have "c \<noteq> CHR ''\<newline>''" by auto
  ultimately show ?thesis by simp
next
  case False
  from upper_other [OF False] show ?thesis by (simp only:)
qed

lemma is_digit_upper: "is_digit c \<Longrightarrow> upper c = c"
  by (rule upper_other) (auto simp: is_digit_def)

lemma occurs_ci_first:
  "\<forall>c\<in>set xs. upper c \<noteq> upper p \<Longrightarrow> \<not> occurs_ci (p # ps) xs"
  by (induction xs) (auto simp: occurs_ci_Cons occurs_ci_Nil)

lemma upper_plain:
  "c \<in> set ''ABCDEFGHIJKLMNOPQRSTUVWXYZ_: /0123456789'' \<or> c = CHR ''\<newline>'' \<Longrightarrow> upper c = c"
  apply (rule upper_other)
  apply (erule disjE)
   apply (simp, elim disjE, simp_all)
  done

lemma no_newline_label:
  "CHR ''\<newline>'' \<notin> set L \<Longrightarrow> \<forall>p\<in>set L. upper p \<noteq> upper (CHR ''\<newline>'')"
  by (metis upper_newline)

lemma digits_upper_neq:
  "\<forall>c\<in>set ds. is_digit c \<Longrightarrow> \<not> is_digit p \<Longrightarrow> \<forall>c\<in>set ds. upper c \<noteq> p"
  by (metis is_digit_upper)

lemma score_line_no_label:
  assumes "\<forall>c\<in>set ds. is_digit c"
  shows "\<not> occurs_ci ''FEEDBACK:'' (''SCORE: '' @ ds @ ''/100'')"
    and "\<not> occurs_ci ''STRENGTHS:'' (''SCORE: '' @ ds @ ''/100'')"
    and "\<not> occurs_ci ''WEAK_AREAS:'' (''SCORE: '' @ ds @ ''/100'')"
proof -
  have f: "\<forall>c\<in>set ds. upper c \<noteq> CHR ''F''"
    using digits_upper_neq [OF assms, of "CHR ''F''"] by (simp add: is_digit_def)
  have s: "\<forall>c\<in>set ds. upper c \<noteq> CHR ''S''"
    using digits_upper_neq [OF assms, of "CHR ''S''"] by (simp add: is_digit_def)
  have w: "\<forall>c\<in>set ds. upper c \<noteq> CHR ''W''"
    using digits_upper_neq [OF assms, of "CHR ''W''"] by (simp add: is_digit_def)
  have "\<forall>c\<in>set (''SCORE: '' @ ds @ ''/100''). upper c \<noteq> upper (CHR ''F'')"
    using f by (simp add: upper_plain)
  then show "\<not> occurs_ci ''FEEDBACK:'' (''SCORE: '' @ ds @ ''/100'')"
    by (rule occurs_ci_first)
  have "\<forall>c\<in>set (''SCORE: '' @ ds @ ''/100''). upper c \<noteq> upper (CHR ''W'')"
    using w by (simp add: upper_plain)
  then show "\<not> occurs_ci ''WEAK_AREAS:'' (''SCORE: '' @ ds @ ''/100'')"
    by (rule occurs_ci_first)
  have "\<forall>c\<in>set (''CORE: '' @ ds @ ''/100''). upper c \<noteq> upper (CHR ''S'')"
    using s by (simp add: upper_plain)
  then have "\<not> occurs_ci ''STRENGTHS:'' (''CORE: '' @ ds @ ''/100'')"
    by (rule occurs_ci_first)
  moreover have "lit_ci ''STRENGTHS:'' (CHR ''S'' # CHR ''C'' # r) = None" for r
    by (simp add: upper_plain)
  ultimately show "\<not> occurs_ci ''STRENGTHS:'' (''SCORE: '' @ ds @ ''/100'')"
    by (simp add: occurs_ci_Cons)
qed

lemma label_line_no_label:
  assumes "\<not> occurs_ci (p # ps) b" and "\<forall>c\<in>set pre. upper c \<noteq> upper p"
  shows "\<not> occurs_ci (p # ps) (pre @ b)"
  using assms(2) by (induction pre) (auto simp: occurs_ci_Cons assms(1))

lemma feedback_line_no_label:
  shows "\<not> occurs_ci ''STRENGTHS:'' fb \<Longrightarrow> \<not> occurs_ci ''STRENGTHS:'' (''FEEDBACK: '' @ fb)"
    and "\<not> occurs_ci ''WEAK_AREAS:'' fb \<Longrightarrow> \<not> occurs_ci ''WEAK_AREAS:'' (''FEEDBACK: '' @ fb)"
  by (rule label_line_no_label; simp add: upper_plain)+

lemma strengths_line_no_label:
  "\<not> occurs_ci ''WEAK_AREAS:'' st \<Longrightarrow> \<not> occurs_ci ''WEAK_AREAS:'' (''STRENGTHS: '' @ st)"
  by (rule label_line_no_label; simp add: upper_plain)

lemma lit_ci_inside:
  assumes "\<not> occurs_ci L b" and "suffix s b" and "CHR ''\<newline>'' \<notin> set L"
  shows "lit_ci L (s @ CHR ''\<newline>'' # Z) = None"
proof -
  have "lit_ci L s = None" using assms(1,2) by (rule occurs_ci_suffix)
  then show ?thesis using lit_ci_sep [OF _ no_newline_label [OF assms(3)]] by blast
qed

lemma first_not_newline:
  assumes "CHR ''\<newline>'' \<notin> set b" and "suffix s b" and "s \<noteq> []"
  shows "lit_ci ''\<newline>'' (s @ Z) = None"
proof -
  from assms(3) obtain h t where s: "s = h # t" by (cases s) auto
  with assms(2) have "h \<in> set b" by (metis list.set_intros(1) set_mono_suffix subsetD)
  with assms(1) have "h \<noteq> CHR ''\<newline>''" by auto
  then have "upper (CHR ''\<newline>'') \<noteq> upper h" by (metis upper_newline)
  then show ?thesis by (simp add: s)
qed

lemma feedback_stop_inside:
  assumes "CHR ''\<newline>'' \<notin> set b" and "\<not> occurs_ci ''STRENGTHS:'' b"
    and "\<not> occurs_ci ''WEAK_AREAS:'' b" and "suffix s b" and "s \<noteq> []"
  shows "\<not> feedback_stop (s @ CHR ''\<newline>'' # Z)"
  unfolding feedback_stop_def
  using first_not_newline [OF assms(1,4,5)] lit_ci_inside [OF assms(2,4)]
    lit_ci_inside [OF assms(3,4)] by simp

lemma strengths_stop_inside:
  assumes "CHR ''\<newline>'' \<notin> set b" and "\<not> occurs_ci ''WEAK_AREAS:'' b"
    and "suffix s b" and "s \<noteq> []"
  shows "\<not> strengths_stop (s @ CHR ''\<newline>'' # Z)"
  unfolding strengths_stop_def
  using first_not_newline [OF assms(1,3,4)] lit_ci_inside [OF assms(2,3)] by simp

lemma weak_areas_at_end:
  "\<exists>m. section_re ''WEAK_AREAS:'' at_end (''WEAK_AREAS:'' @ CHR '' '' # wk) = Some m
       \<and> trim m = trim wk"
proof (cases "\<exists>c\<in>set wk. \<not> is_space c")
  case True
  have "section_re ''WEAK_AREAS:'' at_end (''WEAK_AREAS:'' @ CHR '' '' # wk @ [])
          = Some (dropWhile is_space wk)"
    by (rule section_re_line [OF True]) (simp_all add: at_end_def)
  then show ?thesis by (simp add: trim_dropWhile del: append.simps)
next
  case False
  then have b: "\<forall>c\<in>set wk. is_space c" by blast
  from section_re_blank_end [OF b] obtain w where
    w: "is_space w" "section_re ''WEAK_AREAS:'' at_end (''WEAK_AREAS:'' @ CHR '' '' # wk) = Some [w]"
    by blast
  have "trim [w] = trim wk" using w(1) b by (simp add: trim_blank)
  with w(2) show ?thesis by blast
qed

lemma search_no_label:
  assumes "\<And>s. lit_ci L s = None \<Longrightarrow> m s = None" and "\<not> occurs_ci L text"
  shows "search m text = None"
  using assms by (simp add: occurs_ci_def search_None_iff)

text \<open>
  C2. For every input string the body of the \<open>try\<close> block returns a structured result, which
  is the result of \<open>parseGradingResponse\<close>: nothing is thrown. When the matching step
  throws (the argument is not a string), the result is score 0, the feedback
  "Unable to process assessment. Please try again.", no strengths, and the single weak area
  "Assessment parsing error".
\<close>

theorem parse_never_throws:
  "(\<exists>r. parse_try (Some text) = Inr r \<and> parseGradingResponse (Some text) = r) \<and>
   (parse_try v = Inl e \<longrightarrow>
      parseGradingResponse v =
        \<lparr>score = 0, feedback = ''Unable to process assessment. Please try again.'',
         strengths = [], weakAreas = [''Assessment parsing error'']\<rparr>)"
  by (simp add: parseGradingResponse_def parse_try_def Let_def)

theorem parse_never_throws_witness:
  "parse_try None = Inl TypeError \<and>
   parseGradingResponse None =
     \<lparr>score = 0, feedback = ''Unable to process assessment. Please try again.'',
      strengths = [], weakAreas = [''Assessment parsing error'']\<rparr>"
proof -
  have h: "parse_try None = Inl TypeError" by (simp add: parse_try_def)
  with parse_never_throws [of "''x''" None TypeError] show ?thesis by blast
qed

text \<open>
  C7, as stated, fails: the feedback is not the text after \<open>FEEDBACK:\<close> up to the next
  labeled section. In a response with all four sections whose feedback has two lines, the
  text up to the next label is both lines, and the parser returns the first line only,
  because its lookahead also stops at a line break.
\<close>

theorem parse_feedback_counterexample:
  "spec_section_text ''FEEDBACK:'' two_line_feedback = Some '' Great job!\<newline>Keep practising.\<newline>''
   \<and> trim '' Great job!\<newline>Keep practising.\<newline>'' = ''Great job!\<newline>Keep practising.''
   \<and> feedback (parseGradingResponse (Some two_line_feedback)) = ''Great job!''"
  by code_simp

text \<open>
  C7, amended. For every response made of the four labeled lines \<open>SCORE: n/100\<close>,
  \<open>FEEDBACK: fb\<close>, \<open>STRENGTHS: st\<close>, \<open>WEAK_AREAS: wk\<close> in this order, where \<open>n\<close> is a
  non-empty string of digits, \<open>fb\<close> and \<open>st\<close> are single lines with a character that is not
  white space, and no later label occurs in an earlier section, the parser returns the
  score clamped to at most 100, the trimmed \<open>fb\<close> (the text after \<open>FEEDBACK:\<close> up to the
  first line break), and the comma-split, trimmed, empty-filtered \<open>st\<close> and \<open>wk\<close>.
\<close>

theorem parse_labelled_lines:
  assumes "ds \<noteq> []" and "\<forall>c\<in>set ds. is_digit c"
    and "CHR ''\<newline>'' \<notin> set fb" and "\<exists>c\<in>set fb. \<not> is_space c"
    and "\<not> occurs_ci ''STRENGTHS:'' fb" and "\<not> occurs_ci ''WEAK_AREAS:'' fb"
    and "CHR ''\<newline>'' \<notin> set st" and "\<exists>c\<in>set st. \<not> is_space c"
    and "\<not> occurs_ci ''WEAK_AREAS:'' st"
  shows "parseGradingResponse
           (Some (''SCORE: '' @ ds @ ''/100\<newline>FEEDBACK: '' @ fb @ ''\<newline>STRENGTHS: '' @ st
                  @ ''\<newline>WEAK_AREAS: '' @ wk))
         = \<lparr>score = min 100 (parseInt ds), feedback = trim fb,
            strengths = split_list (trim st), weakAreas = split_list (trim wk)\<rparr>"
proof -
  define W where "W = ''WEAK_AREAS:'' @ CHR '' '' # wk"
  define S where "S = ''STRENGTHS:'' @ CHR '' '' # st @ CHR ''\<newline>'' # W"
  define F where "F = ''FEEDBACK:'' @ CHR '' '' # fb @ CHR ''\<newline>'' # S"
  define T where "T = (''SCORE: '' @ ds @ ''/100'') @ CHR ''\<newline>'' # F"
  have input: "''SCORE: '' @ ds @ ''/100\<newline>FEEDBACK: '' @ fb @ ''\<newline>STRENGTHS: '' @ st
                  @ ''\<newline>WEAK_AREAS: '' @ wk = T"
    by (simp add: T_def F_def S_def W_def)
  have F': "F = (''FEEDBACK: '' @ fb) @ CHR ''\<newline>'' # S" by (simp add: F_def)
  have S': "S = (''STRENGTHS: '' @ st) @ CHR ''\<newline>'' # W" by (simp add: S_def)
  have nl: "CHR ''\<newline>'' \<notin> set ''FEEDBACK:''" "CHR ''\<newline>'' \<notin> set ''STRENGTHS:''"
    "CHR ''\<newline>'' \<notin> set ''WEAK_AREAS:''" by simp_all
  have "T = ''SCORE:'' @ CHR '' '' # ds @ ''/100'' @ (CHR ''\<newline>'' # F)" by (simp add: T_def)
  moreover have "score_re (''SCORE:'' @ CHR '' '' # ds @ ''/100'' @ (CHR ''\<newline>'' # F)) = Some ds"
    by (rule score_re_here [OF assms(1,2)])
  ultimately have "score_re T = Some ds" by (simp only:)
  then have sc: "search score_re T = Some ds" by (rule search_here)
  have fs1: "feedback_stop (CHR ''\<newline>'' # S)" by (simp add: feedback_stop_def)
  have fs2: "\<forall>s. suffix s fb \<and> s \<noteq> [] \<longrightarrow> \<not> feedback_stop (s @ CHR ''\<newline>'' # S)"
    using feedback_stop_inside [OF assms(3,5,6)] by blast
  have "feedback_re F = Some (dropWhile is_space fb)"
    unfolding feedback_re_def F_def by (rule section_re_line [OF assms(4) fs1 fs2])
  then have "search feedback_re F = Some (dropWhile is_space fb)" by (rule search_here)
  then have fe: "search feedback_re T = Some (dropWhile is_space fb)"
    unfolding T_def feedback_re_def
    using section_search_skip [OF score_line_no_label(1) [OF assms(2)] no_newline_label [OF nl(1)]]
    by simp
  have ss1: "strengths_stop (CHR ''\<newline>'' # W)" by (simp add: strengths_stop_def)
  have ss2: "\<forall>s. suffix s st \<and> s \<noteq> [] \<longrightarrow> \<not> strengths_stop (s @ CHR ''\<newline>'' # W)"
    using strengths_stop_inside [OF assms(7,9)] by blast
  have "strengths_re S = Some (dropWhile is_space st)"
    unfolding strengths_re_def S_def by (rule section_re_line [OF assms(8) ss1 ss2])
  then have "search strengths_re S = Some (dropWhile is_space st)" by (rule search_here)
  then have "search strengths_re F = Some (dropWhile is_space st)"
    unfolding F' strengths_re_def
    using section_search_skip [OF feedback_line_no_label(1) [OF assms(5)] no_newline_label [OF nl(2)]]
    by simp
  then have sr: "search strengths_re T = Some (dropWhile is_space st)"
    unfolding T_def strengths_re_def
    using section_search_skip [OF score_line_no_label(2) [OF assms(2)] no_newline_label [OF nl(2)]]
    by simp
  from weak_areas_at_end [of wk] obtain m where
    m: "weak_areas_re W = Some m" "trim m = trim wk"
    unfolding weak_areas_re_def W_def by blast
  from m(1) have "search weak_areas_re W = Some m" by (rule search_here)
  then have "search weak_areas_re S = Some m"
    unfolding S' weak_areas_re_def
    using section_search_skip [OF strengths_line_no_label [OF assms(9)] no_newline_label [OF nl(3)]]
    by simp
  then have "search weak_areas_re F = Some m"
    unfolding F' weak_areas_re_def
    using section_search_skip [OF feedback_line_no_label(2) [OF assms(6)] no_newline_label [OF nl(3)]]
    by simp
  then have we: "search weak_areas_re T = Some m"
    unfolding T_def weak_areas_re_def
    using section_search_skip [OF score_line_no_label(3) [OF assms(2)] no_newline_label [OF nl(3)]]
    by simp
  show ?thesis
    unfolding input parseGradingResponse_def parse_try_def
    by (simp add: sc fe sr we m(2) trim_dropWhile)
qed

theorem parse_labelled_lines_witness:
  "parseGradingResponse
     (Some ''SCORE: 85/100\<newline>FEEDBACK: Great job!\<newline>STRENGTHS: clarity, pace\<newline>WEAK_AREAS: grammar'')
   = \<lparr>score = 85, feedback = ''Great job!'', strengths = [''clarity'', ''pace''],
      weakAreas = [''grammar'']\<rparr>"
proof -
  have h: "''85'' \<noteq> []" "\<forall>c\<in>set ''85''. is_digit c"
    "CHR ''\<newline>'' \<notin> set ''Great job!''" "\<exists>c\<in>set ''Great job!''. \<not> is_space c"
    "\<not> occurs_ci ''STRENGTHS:'' ''Great job!''" "\<not> occurs_ci ''WEAK_AREAS:'' ''Great job!''"
    "CHR ''\<newline>'' \<notin> set ''clarity, pace''" "\<exists>c\<in>set ''clarity, pace''. \<not> is_space c"
    "\<not> occurs_ci ''WEAK_AREAS:'' ''clarity, pace''"
    by code_simp+
  have r: "min 100 (parseInt ''85'') = 85" "trim ''Great job!'' = ''Great job!''"
    "split_list (trim ''clarity, pace'') = [''clarity'', ''pace'']"
    "split_list (trim ''grammar'') = [''grammar'']"
    by code_simp+
  from parse_labelled_lines [OF h, of "''grammar''"] show ?thesis
    unfolding r by simp
qed

text \<open>
  C8. The parser does not throw on a string; a text without the \<open>SCORE:\<close> label gets
  score 0, one without \<open>FEEDBACK:\<close> gets the feedback "No feedback available", and one
  without \<open>STRENGTHS:\<close> or \<open>WEAK_AREAS:\<close> gets the empty list for that section.
\<close>

theorem parse_missing_sections:
  "(\<exists>r. parse_try (Some text) = Inr r) \<and>
   (\<not> occurs_ci ''SCORE:'' text \<longrightarrow> score (parseGradingResponse (Some text)) = 0) \<and>
   (\<not> occurs_ci ''FEEDBACK:'' text \<longrightarrow>
      feedback (parseGradingResponse (Some text)) = ''No feedback available'') \<and>
   (\<not> occurs_ci ''STRENGTHS:'' text \<longrightarrow> strengths (parseGradingResponse (Some text)) = []) \<and>
   (\<not> occurs_ci ''WEAK_AREAS:'' text \<longrightarrow> weakAreas (parseGradingResponse (Some text)) = [])"
proof -
  have 1: "search score_re text = None" if "\<not> occurs_ci ''SCORE:'' text"
    by (rule search_no_label [OF _ that]) (simp add: score_re_def)
  have 2: "search feedback_re text = None" if "\<not> occurs_ci ''FEEDBACK:'' text"
    by (rule search_no_label [OF _ that]) (simp add: feedback_re_def section_re_def)
  have 3: "search strengths_re text = None" if "\<not> occurs_ci ''STRENGTHS:'' text"
    by (rule search_no_label [OF _ that]) (simp add: strengths_re_def section_re_def)
  have 4: "search weak_areas_re text = None" if "\<not> occurs_ci ''WEAK_AREAS:'' text"
    by (rule search_no_label [OF _ that]) (simp add: weak_areas_re_def section_re_def)
  have e: "split_list '''' = []" by (simp add: split_list_def trim_def)
  show ?thesis
    by (simp add: parseGradingResponse_def parse_try_def Let_def 1 2 3 4 e)
qed

theorem parse_missing_sections_witness:
  "\<not> occurs_ci ''SCORE:'' ''I cannot grade this.'' \<and>
   \<not> occurs_ci ''FEEDBACK:'' ''I cannot grade this.'' \<and>
   \<not> occurs_ci ''STRENGTHS:'' ''I cannot grade this.'' \<and>
   \<not> occurs_ci ''WEAK_AREAS:'' ''I cannot grade this.'' \<and>
   score (parseGradingResponse (Some ''I cannot grade this.'')) = 0 \<and>
   feedback (parseGradingResponse (Some ''I cannot grade this.'')) = ''No feedback available'' \<and>
   strengths (parseGradingResponse (Some ''I cannot grade this.'')) = [] \<and>
   weakAreas (parseGradingResponse (Some ''I cannot grade this.'')) = []"
proof -
  have h: "\<not> occurs_ci ''SCORE:'' ''I cannot grade this.''"
    "\<not> occurs_ci ''FEEDBACK:'' ''I cannot grade this.''"
    "\<not> occurs_ci ''STRENGTHS:'' ''I cannot grade this.''"
    "\<not> occurs_ci ''WEAK_AREAS:'' ''I cannot grade this.''"
    by code_simp+
  with parse_missing_sections [of "''I cannot grade this.''"] show ?thesis by blast
qed

section \<open>Properties of the retry loop and the store\<close>

lemma n_firestore_append: "n_firestore (xs @ ys) = n_firestore xs + n_firestore ys"
  by (simp add: n_firestore_def)

lemma n_firestore_events [simp]:
  "n_firestore [] = 0"
  "n_firestore (Attempt op # tr) = Suc (n_firestore tr)"
  "n_firestore (Sleep d # tr) = n_firestore tr"
  "n_firestore (Transcribe # tr) = n_firestore tr"
  "n_firestore (Grade # tr) = n_firestore tr"
  by (simp_all add: n_firestore_def is_attempt_def)

lemma firestore_call_down:
  "\<not> firestore_up env (n_firestore (trace w)) \<Longrightarrow>
   firestore_call env op run w = (Inl ServiceError, log_event (Attempt op) w)"
  by (simp add: firestore_call_def Let_def)

lemma firestore_call_up:
  "firestore_up env (n_firestore (trace w)) \<Longrightarrow> run (log_event (Attempt op) w) = Inr (v, w2) \<Longrightarrow>
   firestore_call env op run w = (Inr v, w2)"
  by (simp add: firestore_call_def Let_def)

lemma firestore_call_throws:
  "firestore_up env (n_firestore (trace w)) \<Longrightarrow> run (log_event (Attempt op) w) = Inl e \<Longrightarrow>
   firestore_call env op run w = (Inl e, log_event (Attempt op) w)"
  by (simp add: firestore_call_def Let_def)

lemma retry_loop_ok:
  "attempt \<le> m \<Longrightarrow> fn w = (Inr v, w') \<Longrightarrow> retry_loop fn m ds attempt le w = (Inr v, w')"
  by (subst retry_loop.simps) simp

lemma retry_loop_again:
  "attempt < m \<Longrightarrow> fn w = (Inl e, w') \<Longrightarrow>
   retry_loop fn m ds attempt le w
     = retry_loop fn m ds (Suc attempt) (Some e) (log_event (Sleep (delay_for ds attempt)) w')"
  by (subst retry_loop.simps) simp

lemma retry_loop_last:
  "fn w = (Inl e, w') \<Longrightarrow> retry_loop fn m ds m le w = (Inl (Some e), w')"
  by (subst retry_loop.simps, simp, subst retry_loop.simps, simp)

lemma trace_log_event [simp]: "trace (log_event e w) = trace w @ [e]"
  and assessments_log_event [simp]: "assessments (log_event e w) = assessments w"
  and users_log_event [simp]: "users (log_event e w) = users w"
  by (simp_all add: log_event_def)

lemma log_event_trace_update [simp]:
  "log_event e (w\<lparr>trace := t\<rparr>) = w\<lparr>trace := t @ [e]\<rparr>"
  by (simp add: log_event_def)

lemma log_event_alt: "log_event e w = w\<lparr>trace := trace w @ [e]\<rparr>"
  by (simp add: log_event_def)

lemma attempts_trace_numeral:
  "attempts_trace op 1 = [Attempt op, Sleep 100, Attempt op]"
  "attempts_trace op 2 = [Attempt op, Sleep 100, Attempt op, Sleep 200, Attempt op]"
  "attempts_trace op 3 =
     [Attempt op, Sleep 100, Attempt op, Sleep 200, Attempt op, Sleep 400, Attempt op]"
  by (simp_all add: numeral_2_eq_2 numeral_3_eq_3 delay_for_def)

lemma attempts_trace_snoc: "butlast (attempts_trace op j) @ [Attempt op] = attempts_trace op j"
  by (cases j) (simp_all add: butlast_append)

lemma n_firestore_attempts: "n_firestore (attempts_trace op j) = Suc j"
  by (induction j) (simp_all add: n_firestore_append)

lemma n_firestore_before: "n_firestore (butlast (attempts_trace op j)) = j"
  by (cases j) (simp_all add: butlast_append n_firestore_append n_firestore_attempts)

lemma retry_prefix:
  assumes "\<forall>k<a. \<not> firestore_up env (n_firestore (trace w) + k)" and "a \<le> 3"
  shows "retryWithBackoff_default (firestore_call env op run) w
         = retry_loop (firestore_call env op run) 3 [100, 200, 400] a
             (if a = 0 then None else Some ServiceError)
             (w\<lparr>trace := trace w @ butlast (attempts_trace op a)\<rparr>)"
  using assms
proof (induction a)
  case 0
  then show ?case by (simp add: retryWithBackoff_default_def retryWithBackoff_def)
next
  case (Suc a)
  let ?F = "firestore_call env op run"
  let ?wa = "w\<lparr>trace := trace w @ butlast (attempts_trace op a)\<rparr>"
  from Suc.prems have down: "\<not> firestore_up env (n_firestore (trace ?wa))"
    by (simp add: n_firestore_append n_firestore_before)
  have "retryWithBackoff_default ?F w
        = retry_loop ?F 3 [100, 200, 400] a (if a = 0 then None else Some ServiceError) ?wa"
    using Suc by simp
  also have "\<dots> = retry_loop ?F 3 [100, 200, 400] (Suc a) (Some ServiceError)
                     (log_event (Sleep (delay_for [100, 200, 400] a)) (log_event (Attempt op) ?wa))"
    by (rule retry_loop_again) (use Suc.prems firestore_call_down [OF down] in simp_all)
  also have "log_event (Sleep (delay_for [100, 200, 400] a)) (log_event (Attempt op) ?wa)
             = w\<lparr>trace := trace w @ butlast (attempts_trace op (Suc a))\<rparr>"
    using attempts_trace_snoc [of op a] by (simp add: butlast_append)
  finally show ?case by simp
qed

lemma default_all_fail:
  assumes "\<forall>k<4. \<not> firestore_up env (n_firestore (trace w) + k)"
  shows "retryWithBackoff_default (firestore_call env op run) w
         = (Inl (Some ServiceError), w\<lparr>trace := trace w @ attempts_trace op 3\<rparr>)"
proof -
  let ?F = "firestore_call env op run"
  let ?w3 = "w\<lparr>trace := trace w @ butlast (attempts_trace op 3)\<rparr>"
  have "\<not> firestore_up env (n_firestore (trace ?w3))"
    using assms by (simp add: n_firestore_append n_firestore_before)
  then have "?F ?w3 = (Inl ServiceError, log_event (Attempt op) ?w3)"
    by (rule firestore_call_down)
  then have "retry_loop ?F 3 [100, 200, 400] 3 (Some ServiceError) ?w3
             = (Inl (Some ServiceError), log_event (Attempt op) ?w3)"
    by (rule retry_loop_last)
  moreover have "retryWithBackoff_default ?F w
                 = retry_loop ?F 3 [100, 200, 400] 3 (Some ServiceError) ?w3"
    using retry_prefix [of 3 env w op run] assms by simp
  moreover have "log_event (Attempt op) ?w3 = w\<lparr>trace := trace w @ attempts_trace op 3\<rparr>"
    using attempts_trace_snoc [of op 3] by simp
  ultimately show ?thesis by simp
qed

lemma default_success:
  assumes "j < 4" and "\<forall>k<j. \<not> firestore_up env (n_firestore (trace w) + k)"
    and "firestore_up env (n_firestore (trace w) + j)"
    and "run (w\<lparr>trace := trace w @ attempts_trace op j\<rparr>) = Inr (v, w')"
  shows "retryWithBackoff_default (firestore_call env op run) w = (Inr v, w')"
proof -
  let ?F = "firestore_call env op run"
  let ?wj = "w\<lparr>trace := trace w @ butlast (attempts_trace op j)\<rparr>"
  have w: "log_event (Attempt op) ?wj = w\<lparr>trace := trace w @ attempts_trace op j\<rparr>"
    using attempts_trace_snoc [of op j] by simp
  have "firestore_up env (n_firestore (trace ?wj))"
    using assms(3) by (simp add: n_firestore_append n_firestore_before)
  then have "?F ?wj = (Inr v, w')"
    by (rule firestore_call_up) (simp only: w assms(4))
  then have "retry_loop ?F 3 [100, 200, 400] j (if j = 0 then None else Some ServiceError) ?wj
             = (Inr v, w')"
    by (rule retry_loop_ok [rotated]) (use assms(1) in simp)
  then show ?thesis using retry_prefix [of j env w op run] assms(1,2) by simp
qed

lemma storeAssessment_down:
  assumes "validate_assessment a = Inr a'" and "requests_fail env w 4"
  shows "storeAssessment env a w
         = (Failure ''Failed to save assessment'' ERR_DATABASE_ERROR,
            w\<lparr>trace := trace w @ attempts_trace Add 3\<rparr>)"
  using assms default_all_fail [of env w Add "assessments_add a'"]
  by (simp add: storeAssessment_def requests_fail_def)

lemma storeAssessment_up:
  assumes "validate_assessment a = Inr a'" and "j < 4" and "requests_fail env w j"
    and "request_ok env w j"
  shows "storeAssessment env a w
         = (Success (length (assessments w)),
            w\<lparr>trace := trace w @ attempts_trace Add j,
              assessments := assessments w @ [(length (assessments w), a')]\<rparr>)"
proof -
  have "assessments_add a' (w\<lparr>trace := trace w @ attempts_trace Add j\<rparr>)
        = Inr (length (assessments w),
               w\<lparr>trace := trace w @ attempts_trace Add j,
                 assessments := assessments w @ [(length (assessments w), a')]\<rparr>)"
    by (simp add: assessments_add_def Let_def)
  with default_success [where run = "assessments_add a'" and op = Add and env = env
      and w = w and j = j] assms show ?thesis
    by (simp add: storeAssessment_def requests_fail_def request_ok_def)
qed

lemma upsertUser_down:
  assumes "validate_user now u = Inr u'" and "requests_fail env w 4"
  shows "upsertUser env now u w
         = (Failure ''Failed to save user data'' ERR_DATABASE_ERROR,
            w\<lparr>trace := trace w @ attempts_trace SetMerge 3\<rparr>)"
  using assms default_all_fail [of env w SetMerge "user_doc_set u'"]
  by (simp add: upsertUser_def requests_fail_def)

lemma upsertUser_up:
  assumes "validate_user now u = Inr u'" and "j < 4" and "requests_fail env w j"
    and "request_ok env w j"
  shows "upsertUser env now u w
         = (Success (),
            w\<lparr>trace := trace w @ attempts_trace SetMerge j,
              users := (users w)(telegramId u' \<mapsto> u')\<rparr>)"
proof -
  have "user_doc_set u' (w\<lparr>trace := trace w @ attempts_trace SetMerge j\<rparr>)
        = Inr ((), w\<lparr>trace := trace w @ attempts_trace SetMerge j,
                     users := (users w)(telegramId u' \<mapsto> u')\<rparr>)"
    by (simp add: user_doc_set_def)
  with default_success [where run = "user_doc_set u'" and op = SetMerge and env = env
      and w = w and j = j] assms show ?thesis
    by (simp add: upsertUser_def requests_fail_def request_ok_def)
qed

lemma updateUserStats_down:
  assumes "requests_fail env w 4"
  shows "updateUserStats env uid up w
         = (Failure ''Failed to update user statistics'' ERR_DATABASE_ERROR,
            w\<lparr>trace := trace w @ attempts_trace Update 3\<rparr>)"
  using assms default_all_fail [of env w Update "user_doc_update uid up"]
  by (simp add: updateUserStats_def requests_fail_def)

lemma updateUserStats_up:
  assumes "users w uid = Some u" and "j < 4" and "requests_fail env w j"
    and "request_ok env w j"
  shows "updateUserStats env uid up w
         = (Success (),
            w\<lparr>trace := trace w @ attempts_trace Update j,
              users := (users w)(uid \<mapsto> apply_update up u)\<rparr>)"
proof -
  have "user_doc_update uid up (w\<lparr>trace := trace w @ attempts_trace Update j\<rparr>)
        = Inr ((), w\<lparr>trace := trace w @ attempts_trace Update j,
                     users := (users w)(uid \<mapsto> apply_update up u)\<rparr>)"
    using assms(1) by (simp add: user_doc_update_def)
  with default_success [where run = "user_doc_update uid up" and op = Update and env = env
      and w = w and j = j] assms show ?thesis
    by (simp add: updateUserStats_def requests_fail_def request_ok_def)
qed

text \<open>
  C1, amended. Every write operation (\<open>upsertUser\<close> and \<open>storeAssessment\<close> on data that
  passes validation, \<open>updateUserStats\<close>) makes up to four attempts, the first one and
  three retries, with delays of 100, 200 and 400 ms between them. When all four attempts
  fail the operation returns the database error (\<open>ERR_DATABASE_ERROR\<close>) after exactly
  these four attempts and writes nothing; when the first \<open>j < 4\<close> attempts fail and the
  next one goes through (for \<open>updateUserStats\<close>: on an existing profile), the write is
  made and success is returned.
\<close>

theorem write_retry_policy:
  "(validate_user now ud = Inr ud' \<and> requests_fail env w 4 \<longrightarrow>
      upsertUser env now ud w
      = (Failure ''Failed to save user data'' ERR_DATABASE_ERROR,
         w\<lparr>trace := trace w @ attempts_trace SetMerge 3\<rparr>)) \<and>
   (validate_user now ud = Inr ud' \<and> j < 4 \<and> requests_fail env w j \<and> request_ok env w j \<longrightarrow>
      upsertUser env now ud w
      = (Success (),
         w\<lparr>trace := trace w @ attempts_trace SetMerge j,
           users := (users w)(telegramId ud' \<mapsto> ud')\<rparr>)) \<and>
   (validate_assessment a = Inr a' \<and> requests_fail env w 4 \<longrightarrow>
      storeAssessment env a w
      = (Failure ''Failed to save assessment'' ERR_DATABASE_ERROR,
         w\<lparr>trace := trace w @ attempts_trace Add 3\<rparr>)) \<and>
   (validate_assessment a = Inr a' \<and> j < 4 \<and> requests_fail env w j \<and> request_ok env w j \<longrightarrow>
      storeAssessment env a w
      = (Success (length (assessments w)),
         w\<lparr>trace := trace w @ attempts_trace Add j,
           assessments := assessments w @ [(length (assessments w), a')]\<rparr>)) \<and>
   (requests_fail env w 4 \<longrightarrow>
      updateUserStats env uid up w
      = (Failure ''Failed to update user statistics'' ERR_DATABASE_ERROR,
         w\<lparr>trace := trace w @ attempts_trace Update 3\<rparr>)) \<and>
   (users w uid = Some u \<and> j < 4 \<and> requests_fail env w j \<and> request_ok env w j \<longrightarrow>
      updateUserStats env uid up w
      = (Success (),
         w\<lparr>trace := trace w @ attempts_trace Update j,
           users := (users w)(uid \<mapsto> apply_update up u)\<rparr>)) \<and>
   attempts_trace op 3
     = [Attempt op, Sleep 100, Attempt op, Sleep 200, Attempt op, Sleep 400, Attempt op]"
  by (intro conjI impI; (elim conjE)?;
      (rule upsertUser_down upsertUser_up storeAssessment_down storeAssessment_up
         updateUserStats_down updateUserStats_up attempts_trace_numeral(3); assumption))

lemma example_valid:
  "validate_assessment (example_assessment ''42'' 0 70) = Inr (example_assessment ''42'' 0 70)"
  "validate_user 0 example_user_input = Inr example_user"
  "assessmentParams_errors (example_params audio) = []"
  by (simp_all add: validate_assessment_def assessment_errors_def example_assessment_def
      not_empty_def at_least_def one_of_languages_def validate_user_def user_errors_def
      example_user_input_def example_user_def or_default_def lessonTime_ok_def is_digit_def
      assessmentParams_errors_def example_params_def vocab_errors_def)

lemma example_requests:
  "requests_fail (example_env h (\<lambda>k. False)) w j"
  "requests_fail (example_env h (\<lambda>k. m \<le> k)) example_world m"
  "request_ok (example_env h (\<lambda>k. m \<le> k)) example_world m"
  by (simp_all add: requests_fail_def request_ok_def example_env_def example_world_def)

text \<open>
  C1, instances: with every request failing, and with the first two requests failing and
  the third going through, for each of the three operations.
\<close>

theorem write_retry_policy_witness:
  "upsertUser (example_env (\<lambda>k. None) (\<lambda>k. False)) 0 example_user_input example_world
   = (Failure ''Failed to save user data'' ERR_DATABASE_ERROR,
      example_world\<lparr>trace := [Attempt SetMerge, Sleep 100, Attempt SetMerge, Sleep 200,
                              Attempt SetMerge, Sleep 400, Attempt SetMerge]\<rparr>) \<and>
   upsertUser (example_env (\<lambda>k. None) (\<lambda>k. 2 \<le> k)) 0 example_user_input example_world
   = (Success (),
      example_world\<lparr>trace := [Attempt SetMerge, Sleep 100, Attempt SetMerge, Sleep 200,
                              Attempt SetMerge],
                    users := [''42'' \<mapsto> example_user]\<rparr>) \<and>
   storeAssessment (example_env (\<lambda>k. None) (\<lambda>k. False)) (example_assessment ''42'' 0 70)
       example_world
   = (Failure ''Failed to save assessment'' ERR_DATABASE_ERROR,
      example_world\<lparr>trace := [Attempt Add, Sleep 100, Attempt Add, Sleep 200, Attempt Add,
                              Sleep 400, Attempt Add]\<rparr>) \<and>
   storeAssessment (example_env (\<lambda>k. None) (\<lambda>k. 2 \<le> k)) (example_assessment ''42'' 0 70)
       example_world
   = (Success 2,
      example_world\<lparr>trace := [Attempt Add, Sleep 100, Attempt Add, Sleep 200, Attempt Add],
                    assessments := assessments example_world
                                   @ [(2, example_assessment ''42'' 0 70)]\<rparr>) \<and>
   updateUserStats (example_env (\<lambda>k. None) (\<lambda>k. False)) ''42'' example_update example_world
   = (Failure ''Failed to update user statistics'' ERR_DATABASE_ERROR,
      example_world\<lparr>trace := [Attempt Update, Sleep 100, Attempt Update, Sleep 200,
                              Attempt Update, Sleep 400, Attempt Update]\<rparr>) \<and>
   updateUserStats (example_env (\<lambda>k. None) (\<lambda>k. 2 \<le> k)) ''42'' example_update example_world
   = (Success (),
      example_world\<lparr>trace := [Attempt Update, Sleep 100, Attempt Update, Sleep 200,
                              Attempt Update],
                    users := [''42'' \<mapsto> apply_update example_update example_user]\<rparr>)"
proof -
  note inst = write_retry_policy [where now = 0 and ud = example_user_input and ud' = example_user
      and w = example_world and a = "example_assessment ''42'' 0 70"
      and a' = "example_assessment ''42'' 0 70" and j = 2 and uid = "''42''"
      and up = example_update and u = example_user]
  have w: "trace example_world = []" "length (assessments example_world) = 2"
    "telegramId example_user = ''42''" "users example_world = [''42'' \<mapsto> example_user]"
    by (simp_all add: example_world_def example_user_def)
  from inst [where env = "example_env (\<lambda>k. None) (\<lambda>k. False)"]
    inst [where env = "example_env (\<lambda>k. None) (\<lambda>k. 2 \<le> k)"]
  show ?thesis
    by (simp add: example_valid example_requests attempts_trace_numeral w)
qed

text \<open>
  C1, as stated, fails: when every attempt fails the store sees four attempts, not three,
  and when the first three attempts fail and the fourth goes through no error is surfaced.
\<close>

theorem three_attempts_counterexample:
  "n_firestore (trace (snd (storeAssessment (example_env (\<lambda>k. None) (\<lambda>k. False))
                              (example_assessment ''42'' 0 70) example_world))) = 4
   \<and> fst (storeAssessment (example_env (\<lambda>k. None) (\<lambda>k. 3 \<le> k))
            (example_assessment ''42'' 0 70) example_world) = Success 2"
proof -
  have w: "trace example_world = []" "length (assessments example_world) = 2"
    by (simp_all add: example_world_def)
  show ?thesis
    using storeAssessment_down [OF example_valid(1) example_requests(1),
        of "\<lambda>k. None" example_world]
      storeAssessment_up [OF example_valid(1) _ example_requests(2,3), of 3 "\<lambda>k. None"]
    by (simp add: attempts_trace_numeral w)
qed

section \<open>Properties of assessVoice\<close>

lemma validate_params_audio:
  "validate_params p = Inr vp \<Longrightarrow> audioBuffer vp = audioBuffer p"
  by (auto simp: validate_params_def split: list.splits)

lemma validate_params_ok:
  "assessmentParams_errors p = [] \<Longrightarrow>
   validate_params p = Inr (p\<lparr>p_nativeLanguage := Some (or_default (p_nativeLanguage p) ''he'')\<rparr>)"
  by (simp add: validate_params_def)

text \<open>
  C5. For every zero-length audio input \<open>assessVoice\<close> returns a failure with code
  \<open>ERR_INVALID_INPUT\<close> and leaves the world as it was: nothing is added to the trace, so
  neither the transcription nor the grading collaborator nor the store is called. When
  the other inputs are valid the error is "Audio buffer is empty" (the empty-audio error of
  \<open>transcribeAudio\<close>); otherwise it is the validation message.
\<close>

theorem empty_audio_rejected:
  "audioBuffer p = [] \<longrightarrow>
     (\<exists>msg. assessVoice env p w = (Failure msg ERR_INVALID_INPUT, w)
        \<and> (assessmentParams_errors p = [] \<longrightarrow> msg = ''Audio buffer is empty''))"
proof (cases "assessmentParams_errors p")
  case Nil
  then show ?thesis
    by (simp add: assessVoice_def validate_params_ok transcribeAudio_def)
next
  case (Cons e es)
  then show ?thesis
    by (simp add: assessVoice_def validate_params_def)
qed

text \<open>
  C5, instance: valid parameters with an empty buffer.
\<close>

theorem empty_audio_rejected_witness:
  "audioBuffer (example_params []) = [] \<and>
   assessVoice (example_env (\<lambda>k. Some ''hello'') (\<lambda>k. True)) (example_params []) example_world
   = (Failure ''Audio buffer is empty'' ERR_INVALID_INPUT, example_world)"
proof -
  have a: "audioBuffer (example_params []) = []" by (simp add: example_params_def)
  from empty_audio_rejected [of "example_params []" "example_env (\<lambda>k. Some ''hello'') (\<lambda>k. True)"
      example_world] a example_valid(3) [of "[]"]
  show ?thesis by auto
qed

lemma n_transcribe_events [simp]:
  "n_transcribe [] = 0"
  "n_transcribe (Transcribe # tr) = Suc (n_transcribe tr)"
  "n_transcribe (Sleep d # tr) = n_transcribe tr"
  "n_transcribe (Attempt op # tr) = n_transcribe tr"
  "n_transcribe (Grade # tr) = n_transcribe tr"
  by (simp_all add: n_transcribe_def)

lemma n_transcribe_append: "n_transcribe (xs @ ys) = n_transcribe xs + n_transcribe ys"
  by (simp add: n_transcribe_def)

text \<open>
  C6. On valid parameters with non-empty audio, when the transcription request fails on the
  first call and on the retry, \<open>assessVoice\<close> returns "Audio transcription failed" with
  code \<open>ERR_TRANSCRIPTION_FAILED\<close>; the only events are the two requests with a delay of
  1000 ms between them, so the store is never called and the collections are unchanged.
\<close>

theorem transcription_failed_twice:
  assumes "assessmentParams_errors p = []" and "audioBuffer p \<noteq> []"
    and "\<forall>audio l. whisper env (n_transcribe (trace w)) audio l = None"
    and "\<forall>audio l. whisper env (Suc (n_transcribe (trace w))) audio l = None"
  shows "assessVoice env p w
         = (Failure ''Audio transcription failed'' ERR_TRANSCRIPTION_FAILED,
            w\<lparr>trace := trace w @ [Transcribe, Sleep 1000, Transcribe]\<rparr>)"
  using assms
  by (simp add: assessVoice_def validate_params_ok transcribeAudio_def retryOnce_def
      whisper_request_def Let_def n_transcribe_append log_event_alt)

text \<open>
  C6, instance: the first two transcription requests fail.
\<close>

theorem transcription_failed_twice_witness:
  "assessVoice (example_env (\<lambda>k. if k < 2 then None else Some ''hello'') (\<lambda>k. True))
       (example_params [79, 103, 103, 83]) example_world
   = (Failure ''Audio transcription failed'' ERR_TRANSCRIPTION_FAILED,
      example_world\<lparr>trace := [Transcribe, Sleep 1000, Transcribe]\<rparr>)
   \<and> assessments (example_world\<lparr>trace := [Transcribe, Sleep 1000, Transcribe]\<rparr>)
       = assessments example_world"
proof -
  have h: "audioBuffer (example_params [79, 103, 103, 83]) \<noteq> []"
    "\<forall>audio l. whisper (example_env (\<lambda>k. if k < 2 then None else Some ''hello'') (\<lambda>k. True))
        (n_transcribe (trace example_world)) audio l = None"
    "\<forall>audio l. whisper (example_env (\<lambda>k. if k < 2 then None else Some ''hello'') (\<lambda>k. True))
        (Suc (n_transcribe (trace example_world))) audio l = None"
    by (simp_all add: example_params_def example_env_def example_world_def)
  from transcription_failed_twice [OF example_valid(3) h]
  show ?thesis by (simp add: example_world_def)
qed

lemma retry_loop_result:
  "(\<And>w e w'. fn w = (Inl e, w') \<Longrightarrow> I w \<Longrightarrow> I w') \<Longrightarrow>
   (\<And>w d. I w \<Longrightarrow> I (log_event (Sleep d) w)) \<Longrightarrow>
   I w \<Longrightarrow> retry_loop fn m ds a le w = (r, w') \<Longrightarrow>
   (\<exists>w0 v. I w0 \<and> fn w0 = (Inr v, w') \<and> r = Inr v) \<or> (\<exists>e. r = Inl e \<and> I w')"
proof (induction fn m ds a le w rule: retry_loop.induct)
  case (1 fn m ds a le w)
  note fails = "1.prems"(1) and sleeps = "1.prems"(2) and inv = "1.prems"(3)
    and run = "1.prems"(4)
  show ?case
  proof (cases "a \<le> m")
    case False
    from run have "r = Inl le \<and> w' = w"
      by (subst (asm) retry_loop.simps) (use False in auto)
    with inv show ?thesis by simp
  next
    case True
    obtain x w1 where f: "fn w = (x, w1)" by (cases "fn w")
    show ?thesis
    proof (cases x)
      case (Inr v)
      from run have "r = Inr v \<and> w' = w1"
        by (subst (asm) retry_loop.simps) (use True f Inr in auto)
      with inv f Inr show ?thesis by auto
    next
      case (Inl e)
      let ?w2 = "if a < m then log_event (Sleep (delay_for ds a)) w1 else w1"
      from Inl f inv have "I w1" using fails [of w e w1] by simp
      then have i2: "I ?w2" using sleeps by simp
      from run have "retry_loop fn m ds (a + 1) (Some e) ?w2 = (r, w')"
        by (subst (asm) retry_loop.simps) (use True f Inl in simp)
      from "1.IH" [OF True f [symmetric] Inl fails sleeps i2 this] show ?thesis .
    qed
  qed
qed

lemma query_step:
  assumes "firestore_call env Query (assessments_query uid limit) w0 = (y, w2)"
  shows "assessments w2 = assessments w0 \<and> users w2 = users w0
         \<and> (\<forall>v. y = Inr v \<longrightarrow> v = recent_assessments uid limit (assessments w0))"
  using assms
  by (cases "firestore_up env (n_firestore (trace w0))")
     (auto simp: firestore_call_def assessments_query_def Let_def)

lemma getUserAssessments_cases:
  assumes "getUserAssessments env uid limit w = (r, w')"
  shows "assessments w' = assessments w \<and> users w' = users w
         \<and> (r = Success (recent_assessments uid limit (assessments w)) \<or> (\<exists>e c. r = Failure e c))"
proof -
  let ?fn = "firestore_call env Query (assessments_query uid limit)"
  let ?I = "\<lambda>x. assessments x = assessments w \<and> users x = users w"
  obtain x w1 where rl: "retry_loop ?fn 3 [100, 200, 400] 0 None w = (x, w1)"
    by (cases "retry_loop ?fn 3 [100, 200, 400] 0 None w")
  have "(\<exists>w0 v. ?I w0 \<and> ?fn w0 = (Inr v, w1) \<and> x = Inr v) \<or> (\<exists>e. x = Inl e \<and> ?I w1)"
  proof (rule retry_loop_result [where I = ?I, OF _ _ _ rl])
    show "?I w2" if "?fn w0 = (Inl e, w2)" "?I w0" for w0 e w2
      using query_step [OF that(1)] that(2) by simp
    show "?I (log_event (Sleep d) w0)" if "?I w0" for w0 d
      using that by simp
    show "?I w" by simp
  qed
  then have "?I w1 \<and> (\<forall>v. x = Inr v \<longrightarrow> v = recent_assessments uid limit (assessments w))"
    using query_step by fastforce
  with assms rl show ?thesis
    unfolding getUserAssessments_def retryWithBackoff_default_def retryWithBackoff_def
    by (cases x) auto
qed

lemma update_step:
  assumes "firestore_call env Update (user_doc_update uid up) w0 = (y, w2)"
  shows "assessments w2 = assessments w0
         \<and> (case y of
               Inl e \<Rightarrow> users w2 = users w0
             | Inr v \<Rightarrow> \<exists>u. users w0 uid = Some u
                            \<and> users w2 = (users w0)(uid \<mapsto> apply_update up u))"
  using assms
  by (cases "firestore_up env (n_firestore (trace w0))"; cases "users w0 uid")
     (auto simp: firestore_call_def user_doc_update_def Let_def)

lemma updateUserStats_cases:
  assumes "updateUserStats env uid up w = (r, w')"
  shows "assessments w' = assessments w
         \<and> (users w' = users w
            \<or> (\<exists>u. users w uid = Some u \<and> users w' = (users w)(uid \<mapsto> apply_update up u)))"
proof -
  let ?fn = "firestore_call env Update (user_doc_update uid up)"
  let ?I = "\<lambda>x. assessments x = assessments w \<and> users x = users w"
  obtain x w1 where rl: "retry_loop ?fn 3 [100, 200, 400] 0 None w = (x, w1)"
    by (cases "retry_loop ?fn 3 [100, 200, 400] 0 None w")
  have "(\<exists>w0 v. ?I w0 \<and> ?fn w0 = (Inr v, w1) \<and> x = Inr v) \<or> (\<exists>e. x = Inl e \<and> ?I w1)"
  proof (rule retry_loop_result [where I = ?I, OF _ _ _ rl])
    show "?I w2" if "?fn w0 = (Inl e, w2)" "?I w0" for w0 e w2
      using update_step [OF that(1)] that(2) by simp
    show "?I (log_event (Sleep d) w0)" if "?I w0" for w0 d
      using that by simp
    show "?I w" by simp
  qed
  then have "assessments w1 = assessments w
         \<and> (users w1 = users w
            \<or> (\<exists>u. users w uid = Some u \<and> users w1 = (users w)(uid \<mapsto> apply_update up u)))"
  proof (elim disjE exE conjE)
    fix w0 v
    assume a: "assessments w0 = assessments w" "users w0 = users w" "?fn w0 = (Inr v, w1)"
    from update_step [OF a(3)] a(1,2) show ?thesis by simp
  next
    fix e assume "x = Inl e" "assessments w1 = assessments w" "users w1 = users w"
    then show ?thesis by simp
  qed
  moreover from assms rl have "w' = w1"
    unfolding updateUserStats_def retryWithBackoff_default_def retryWithBackoff_def
    by (cases x) auto
  ultimately show ?thesis by simp
qed

lemma calculateStreak_world:
  "assessments (snd (calculateStreak env uid d w)) = assessments w
   \<and> users (snd (calculateStreak env uid d w)) = users w"
proof -
  obtain r w' where g: "getUserAssessments env uid 100 w = (r, w')"
    by (cases "getUserAssessments env uid 100 w")
  from getUserAssessments_cases [OF g] show ?thesis
    unfolding calculateStreak_def g by (cases r) auto
qed

lemma example_reply_parsed:
  "parseGradingResponse (Some example_reply)
   = \<lparr>score = 85, feedback = ''Great job!'', strengths = [''clarity'', ''pace''],
      weakAreas = [''grammar'']\<rparr>"
  by code_simp

lemma n_grade_events [simp]:
  "n_grade [] = 0"
  "n_grade (Grade # tr) = Suc (n_grade tr)"
  "n_grade (Transcribe # tr) = n_grade tr"
  "n_grade (Sleep d # tr) = n_grade tr"
  "n_grade (Attempt op # tr) = n_grade tr"
  by (simp_all add: n_grade_def)

lemma example_run:
  fixes up :: "nat \<Rightarrow> bool"
  defines "env \<equiv> example_env (\<lambda>k. Some ''hello my name is Dana'') up"
  shows "validate_params (example_params [79, 103, 103, 83]) = Inr example_validated"
    and "transcribeAudio env (audioBuffer example_validated) (p_targetLanguage example_validated)
           example_world
         = (Success ''hello my name is Dana'', example_world\<lparr>trace := [Transcribe]\<rparr>)"
    and "gradeTranscript env ''hello my name is Dana'' (p_targetLanguage example_validated)
           (or_default (p_nativeLanguage example_validated) ''he'') (lessonWords example_validated)
           (p_expectedAnswer example_validated) (example_world\<lparr>trace := [Transcribe]\<rparr>)
         = (Success (Some example_reply), example_world\<lparr>trace := [Transcribe, Grade]\<rparr>)"
    and "assessment_record env example_validated ''hello my name is Dana''
           (parseGradingResponse (Some example_reply)) = example_stored"
    and "validate_assessment example_stored = Inr example_stored"
proof -
  show "validate_params (example_params [79, 103, 103, 83]) = Inr example_validated"
    using validate_params_ok [OF example_valid(3), of "[79, 103, 103, 83]"]
    by (simp add: example_validated_def or_default_def example_params_def)
  show "transcribeAudio env (audioBuffer example_validated) (p_targetLanguage example_validated)
           example_world
         = (Success ''hello my name is Dana'', example_world\<lparr>trace := [Transcribe]\<rparr>)"
    by (simp add: transcribeAudio_def example_validated_def example_params_def retryOnce_def
        whisper_request_def env_def example_env_def Let_def example_world_def log_event_def)
  show "gradeTranscript env ''hello my name is Dana'' (p_targetLanguage example_validated)
           (or_default (p_nativeLanguage example_validated) ''he'') (lessonWords example_validated)
           (p_expectedAnswer example_validated) (example_world\<lparr>trace := [Transcribe]\<rparr>)
         = (Success (Some example_reply), example_world\<lparr>trace := [Transcribe, Grade]\<rparr>)"
    by (simp add: gradeTranscript_def retryOnce_def llm_request_def env_def example_env_def
        Let_def example_world_def log_event_def)
  show "assessment_record env example_validated ''hello my name is Dana''
           (parseGradingResponse (Some example_reply)) = example_stored"
    by (simp add: assessment_record_def example_reply_parsed example_validated_def
        example_params_def example_stored_def env_def example_env_def)
  show "validate_assessment example_stored = Inr example_stored"
    by (simp add: validate_assessment_def assessment_errors_def example_stored_def
        not_empty_def at_least_def one_of_languages_def)
qed

lemma example_store:
  assumes "up 0"
  shows "storeAssessment (example_env h up) example_stored (example_world\<lparr>trace := [Transcribe, Grade]\<rparr>)
         = (Success 2,
            example_world\<lparr>trace := [Transcribe, Grade, Attempt Add],
                          assessments := assessments example_world @ [(2, example_stored)]\<rparr>)"
  using storeAssessment_up [OF example_run(5), of 0 "example_env h up"
      "example_world\<lparr>trace := [Transcribe, Grade]\<rparr>"] assms
  by (simp add: requests_fail_def request_ok_def example_env_def example_world_def)


lemma getUserAssessments_down:
  assumes "requests_fail env w 4"
  shows "getUserAssessments env uid limit w
         = (Failure ''Failed to retrieve assessments'' ERR_DATABASE_ERROR,
            w\<lparr>trace := trace w @ attempts_trace Query 3\<rparr>)"
  using assms default_all_fail [of env w Query "assessments_query uid limit"]
  by (simp add: getUserAssessments_def requests_fail_def)

lemma apply_update_stats:
  "apply_update \<lparr>new_avgScore = Some x, new_streak = Some n, new_totalLessons = None,
                 new_lessonDay = None, new_targetLanguage = None\<rparr> u
   = u\<lparr>avgScore := x, streak := n\<rparr>"
  by (simp add: apply_update_def or_default_def)

lemma update_statistics_cases:
  "assessments (update_statistics env uid w) = assessments w
   \<and> (users (update_statistics env uid w) = users w
      \<or> (\<exists>u n. users w uid = Some u
            \<and> users (update_statistics env uid w)
              = (users w)(uid \<mapsto>
                   u\<lparr>avgScore := round1 (mean (map (\<lambda>d. score (snd d))
                                                 (recent_assessments uid 50 (assessments w)))),
                     streak := n\<rparr>)))"
proof -
  obtain r w1 where g: "getUserAssessments env uid 50 w = (r, w1)"
    by (cases "getUserAssessments env uid 50 w")
  note g1 = getUserAssessments_cases [OF g]
  show ?thesis
  proof (cases r)
    case (Failure e c)
    with g g1 show ?thesis by (simp add: update_statistics_def)
  next
    case (Success docs)
    with g1 have docs: "docs = recent_assessments uid 50 (assessments w)" by simp
    obtain n w2 where c: "calculateStreak env uid (time_streak env) w1 = (n, w2)"
      by (cases "calculateStreak env uid (time_streak env) w1")
    from calculateStreak_world [of env uid "time_streak env" w1] c g1
    have w2: "assessments w2 = assessments w" "users w2 = users w" by simp_all
    let ?up = "\<lparr>new_avgScore = Some (round1 (mean (map (\<lambda>d. score (snd d)) docs))),
                new_streak = Some n, new_totalLessons = None, new_lessonDay = None,
                new_targetLanguage = None\<rparr>"
    obtain r3 w3 where u: "updateUserStats env uid ?up w2 = (r3, w3)"
      by (cases "updateUserStats env uid ?up w2")
    have res: "update_statistics env uid w = w3"
      by (simp add: update_statistics_def g Success c u)
    from updateUserStats_cases [OF u] w2 show ?thesis
      unfolding res by (auto simp: apply_update_stats docs)
  qed
qed

lemma update_statistics_read_fails:
  assumes "requests_fail env w 4"
  shows "update_statistics env uid w = w\<lparr>trace := trace w @ attempts_trace Query 3\<rparr>"
  by (simp add: update_statistics_def getUserAssessments_down [OF assms])



lemma assessVoice_stored:
  assumes "validate_params p = Inr vp"
    and "transcribeAudio env (audioBuffer vp) (p_targetLanguage vp) w = (Success text, w1)"
    and "gradeTranscript env text (p_targetLanguage vp) (or_default (p_nativeLanguage vp) ''he'')
           (lessonWords vp) (p_expectedAnswer vp) w1 = (Success reply, w2)"
    and "storeAssessment env (assessment_record env vp text (parseGradingResponse reply)) w2
         = (Success docId, w3)"
  shows "assessVoice env p w
         = (Success \<lparr>score = score (parseGradingResponse reply),
                     feedback = feedback (parseGradingResponse reply),
                     strengths = strengths (parseGradingResponse reply),
                     weakAreas = weakAreas (parseGradingResponse reply),
                     transcript = text, assessmentId = docId\<rparr>,
            update_statistics env (p_userId vp) w3)"
  using assms by (simp add: assessVoice_def Let_def)

text \<open>
  C10. When validation, transcription, grading and the store of the assessment record all
  succeed, \<open>assessVoice\<close> returns success with the generated id, the parsed score, feedback,
  strengths and weak areas, and the transcript, whatever happens in the statistics step;
  the stored record stays; and when the read of the assessment history fails (all four
  attempts), the statistics update is skipped: only the four read attempts are added to
  the trace and the profiles are unchanged.
\<close>

theorem success_despite_failed_statistics:
  assumes "validate_params p = Inr vp"
    and "transcribeAudio env (audioBuffer vp) (p_targetLanguage vp) w = (Success text, w1)"
    and "gradeTranscript env text (p_targetLanguage vp) (or_default (p_nativeLanguage vp) ''he'')
           (lessonWords vp) (p_expectedAnswer vp) w1 = (Success reply, w2)"
    and "storeAssessment env (assessment_record env vp text (parseGradingResponse reply)) w2
         = (Success docId, w3)"
  shows "fst (assessVoice env p w)
         = Success \<lparr>score = score (parseGradingResponse reply),
                    feedback = feedback (parseGradingResponse reply),
                    strengths = strengths (parseGradingResponse reply),
                    weakAreas = weakAreas (parseGradingResponse reply),
                    transcript = text, assessmentId = docId\<rparr>
         \<and> assessments (snd (assessVoice env p w)) = assessments w3
         \<and> (requests_fail env w3 4 \<longrightarrow>
              snd (assessVoice env p w) = w3\<lparr>trace := trace w3 @ attempts_trace Query 3\<rparr>)"
  using update_statistics_cases [of env "p_userId vp" w3]
  by (simp add: assessVoice_stored [OF assms] update_statistics_read_fails)

text \<open>
  C10, instance: the store goes through at its first attempt and every later request fails.
\<close>

theorem success_despite_failed_statistics_witness:
  "fst (assessVoice (example_env (\<lambda>k. Some ''hello my name is Dana'') (\<lambda>k. k = 0))
          (example_params [79, 103, 103, 83]) example_world)
   = Success \<lparr>score = 85, feedback = ''Great job!'', strengths = [''clarity'', ''pace''],
              weakAreas = [''grammar''], transcript = ''hello my name is Dana'',
              assessmentId = 2\<rparr>
   \<and> snd (assessVoice (example_env (\<lambda>k. Some ''hello my name is Dana'') (\<lambda>k. k = 0))
            (example_params [79, 103, 103, 83]) example_world)
     = example_world
         \<lparr>trace := [Transcribe, Grade, Attempt Add, Attempt Query, Sleep 100, Attempt Query,
                    Sleep 200, Attempt Query, Sleep 400, Attempt Query],
          assessments := assessments example_world @ [(2, example_stored)]\<rparr>"
proof -
  let ?env = "example_env (\<lambda>k. Some ''hello my name is Dana'') (\<lambda>k. k = 0)"
  let ?w3 = "example_world\<lparr>trace := [Transcribe, Grade, Attempt Add],
                           assessments := assessments example_world @ [(2, example_stored)]\<rparr>"
  have s: "storeAssessment ?env
             (assessment_record ?env example_validated ''hello my name is Dana''
                (parseGradingResponse (Some example_reply)))
             (example_world\<lparr>trace := [Transcribe, Grade]\<rparr>) = (Success 2, ?w3)"
    by (simp only: example_run(4)) (rule example_store, simp)
  have f: "requests_fail ?env ?w3 4"
    by (simp add: requests_fail_def example_env_def)
  from success_despite_failed_statistics [OF example_run(1-3) s] f
  show ?thesis by (simp add: example_reply_parsed attempts_trace_numeral)
qed








section \<open>Properties of getLesson\<close>






section \<open>Properties of calculateStreak\<close>









end
